theory Spec2Isabelle
  imports Complex_Main
begin

section \<open>Text, exceptions and enumerations of \<^verbatim>\<open>damai_appium/runner.py\<close>\<close>

text \<open>
  A Python \<^verbatim>\<open>str\<close> is modelled as the list of its Unicode code points, so that
  \<^verbatim>\<open>strip\<close>, \<^verbatim>\<open>replace\<close> and the substring test \<^verbatim>\<open>in\<close> count what Python
  counts. ASCII pieces are written as HOL strings and converted with \<open>ascii\<close>; the
  Chinese pieces of the source are written as code points, with an English gloss.
\<close>

type_synonym pystr = "nat list"

definition ascii :: "string \<Rightarrow> pystr" where
  "ascii s = map of_char s"

text \<open>The characters for which \<^verbatim>\<open>str.isspace\<close> holds; \<^verbatim>\<open>str.strip()\<close> removes them
  from both ends.\<close>

definition is_space :: "nat \<Rightarrow> bool" where
  "is_space c \<longleftrightarrow>
     (0x9 \<le> c \<and> c \<le> 0xD) \<or> (0x1C \<le> c \<and> c \<le> 0x20) \<or> c = 0x85 \<or> c = 0xA0 \<or>
     c = 0x1680 \<or> (0x2000 \<le> c \<and> c \<le> 0x200A) \<or> c = 0x2028 \<or> c = 0x2029 \<or>
     c = 0x202F \<or> c = 0x205F \<or> c = 0x3000"

definition py_strip :: "pystr \<Rightarrow> pystr" where
  "py_strip t = rev (dropWhile is_space (rev (dropWhile is_space t)))"

primrec starts_with :: "pystr \<Rightarrow> pystr \<Rightarrow> bool" where
  "starts_with [] ys = True"
| "starts_with (x # xs) ys = (case ys of [] \<Rightarrow> False | y # ys' \<Rightarrow> x = y \<and> starts_with xs ys')"

text \<open>\<open>py_in xs ys\<close> is Python's \<^verbatim>\<open>xs in ys\<close> on strings.\<close>

primrec py_in :: "pystr \<Rightarrow> pystr \<Rightarrow> bool" where
  "py_in xs [] = (xs = [])"
| "py_in xs (y # ys) = (starts_with xs (y # ys) \<or> py_in xs ys)"

text \<open>\<^verbatim>\<open>str(n)\<close> for an integer.\<close>

fun str_nat :: "nat \<Rightarrow> pystr" where
  "str_nat n = (if n < 10 then [48 + n] else str_nat (n div 10) @ [48 + n mod 10])"

declare str_nat.simps [simp del]

definition str_int :: "int \<Rightarrow> pystr" where
  "str_int i = (if i < 0 then 45 # str_nat (nat (- i)) else str_nat (nat i))"

datatype log_level = STEP | INFO | SUCCESS | WARNING | ERROR

datatype runner_phase =
    INIT | CONNECTING | APPLYING_SETTINGS | SELECTING_CITY | SEARCHING_EVENT
  | TAPPING_PURCHASE | SELECTING_DATE | SELECTING_SESSION | SELECTING_PRICE
  | SELECTING_QUANTITY | CONFIRMING_PURCHASE | SELECTING_USERS | SUBMITTING_ORDER
  | COMPLETED | STOPPED | FAILED

datatype failure_reason = USER_STOP | APPIUM_CONNECTION | FLOW_FAILURE | UNEXPECTED | MAX_RETRIES

text \<open>
  Exceptions are values. \<open>exc_class\<close> keeps the classes the source tells apart in its
  \<^verbatim>\<open>except\<close> clauses; every other subclass of \<^verbatim>\<open>Exception\<close> is \<open>OtherException\<close>
  with its class name. \<open>exc_str e\<close> is \<^verbatim>\<open>str(e)\<close>. Instances of \<^verbatim>\<open>BaseException\<close>
  outside \<^verbatim>\<open>Exception\<close> (\<^verbatim>\<open>KeyboardInterrupt\<close>, \<^verbatim>\<open>SystemExit\<close>) are not modelled.
\<close>

datatype exc_class =
    TicketRunnerStopped | TicketRunnerError | TimeoutException | TypeError
  | OtherException string

datatype exc = Exc (exc_cls: exc_class) (exc_str: pystr)

definition class_name :: "exc_class \<Rightarrow> pystr" where
  "class_name c = (case c of
      TicketRunnerStopped \<Rightarrow> ascii ''TicketRunnerStopped''
    | TicketRunnerError \<Rightarrow> ascii ''TicketRunnerError''
    | TimeoutException \<Rightarrow> ascii ''TimeoutException''
    | TypeError \<Rightarrow> ascii ''TypeError''
    | OtherException n \<Rightarrow> ascii n)"

text \<open>\<^verbatim>\<open>isinstance\<close>: \<^verbatim>\<open>TicketRunnerStopped\<close> is a subclass of \<^verbatim>\<open>TicketRunnerError\<close>.\<close>

definition is_stopped :: "exc \<Rightarrow> bool" where
  "is_stopped e \<longleftrightarrow> exc_cls e = TicketRunnerStopped"

definition is_runner_error :: "exc \<Rightarrow> bool" where
  "is_runner_error e \<longleftrightarrow> exc_cls e = TicketRunnerStopped \<or> exc_cls e = TicketRunnerError"

definition is_timeout :: "exc \<Rightarrow> bool" where
  "is_timeout e \<longleftrightarrow> exc_cls e = TimeoutException"

definition is_type_error :: "exc \<Rightarrow> bool" where
  "is_type_error e \<longleftrightarrow> exc_cls e = TypeError"

text \<open>The connection-failure text \<^verbatim>\<open>"<lianjie> Appium server"\<close> (U+8FDE U+63A5, "connect").\<close>

definition conn_text :: pystr where
  "conn_text = [0x8FDE, 0x63A5] @ ascii '' Appium server''"

text \<open>\<^verbatim>\<open>"<yonghu yi tingzhi liucheng>"\<close>: "the user has stopped the flow".\<close>

definition msg_user_stopped :: pystr where
  "msg_user_stopped = [0x7528, 0x6237, 0x5DF2, 0x505C, 0x6B62, 0x6D41, 0x7A0B]"

text \<open>\<^verbatim>\<open>f"<wei yuqi de yichang>: {message}"\<close>: "unexpected exception: ...".\<close>

definition msg_unexpected :: "pystr \<Rightarrow> pystr" where
  "msg_unexpected m = [0x672A, 0x9884, 0x671F, 0x7684, 0x5F02, 0x5E38, 0x3A, 0x20] @ m"

text \<open>\<^verbatim>\<open>x or y\<close> on strings: the empty string is falsy.\<close>

definition or_text :: "pystr \<Rightarrow> pystr \<Rightarrow> pystr" where
  "or_text x y = (if x = [] then y else x)"

text \<open>\<^verbatim>\<open>DamaiAppTicketRunner._diagnose_failure\<close> (runner.py, lines 1065-1073).\<close>

definition diagnose_failure :: "exc \<Rightarrow> failure_reason \<times> pystr" where
  "diagnose_failure e =
     (let message = or_text (py_strip (exc_str e)) (class_name (exc_cls e)) in
      if is_stopped e then (USER_STOP, or_text message msg_user_stopped)
      else if is_runner_error e then
        (if py_in conn_text message then (APPIUM_CONNECTION, message)
         else (FLOW_FAILURE, message))
      else (UNEXPECTED, msg_unexpected message))"


subsection \<open>Messages\<close>

text \<open>
  The literals and f-strings of the source that end up in log entries and exception
  messages, as code points. A parameter stands for the formatted value.
\<close>

definition msg_wait_remaining :: "pystr \<Rightarrow> pystr" where \<comment> \<open>waiting for the scheduled start, remaining seconds\<close>
  "msg_wait_remaining secs = [0x7B49, 0x5F85, 0x5230, 0x6307, 0x5B9A, 0x65F6, 0x95F4, 0x5F00,
     0x59CB, 0x62A2, 0x7968, 0xFF0C, 0x5269, 0x4F59, 0x65F6, 0x95F4, 0x3A, 0x20] @ secs @
     [0x79D2]"

definition msg_start_reached :: pystr where \<comment> \<open>scheduled time reached, starting\<close>
  "msg_start_reached = [0x5230, 0x8FBE, 0x6307, 0x5B9A, 0x65F6, 0x95F4, 0xFF0C, 0x5F00,
     0x59CB, 0x62A2, 0x7968]"

definition msg_attempt :: "pystr \<Rightarrow> pystr" where \<comment> \<open>attempt number n\<close>
  "msg_attempt n = [0x7B2C, 0x20] @ n @ [0x20, 0x6B21, 0x5C1D, 0x8BD5]"

definition msg_flow_done :: pystr where \<comment> \<open>ticket flow finished\<close>
  "msg_flow_done = [0x62A2, 0x7968, 0x6D41, 0x7A0B, 0x6267, 0x884C, 0x5B8C, 0x6210]"

definition msg_driver_cleaned :: pystr where \<comment> \<open>driver was cleaned up, trying to recreate it\<close>
  "msg_driver_cleaned = [0x44, 0x72, 0x69, 0x76, 0x65, 0x72, 0x5DF2, 0x88AB, 0x6E05, 0x7406,
     0xFF0C, 0x5C1D, 0x8BD5, 0x91CD, 0x65B0, 0x521B, 0x5EFA, 0x64, 0x72, 0x69, 0x76, 0x65,
     0x72]"

definition msg_recreate_failed :: "pystr \<Rightarrow> pystr" where \<comment> \<open>recreating the driver failed\<close>
  "msg_recreate_failed e = [0x91CD, 0x65B0, 0x521B, 0x5EFA, 0x64, 0x72, 0x69, 0x76, 0x65,
     0x72, 0x5931, 0x8D25, 0x3A, 0x20] @ e"

definition msg_home_failed :: "pystr \<Rightarrow> pystr" where \<comment> \<open>returning to the home page failed\<close>
  "msg_home_failed e = [0x8FD4, 0x56DE, 0x9996, 0x9875, 0x5931, 0x8D25, 0x3A, 0x20] @ e"

definition msg_prepare_retry :: pystr where \<comment> \<open>preparing to retry\<close>
  "msg_prepare_retry = [0x51C6, 0x5907, 0x91CD, 0x8BD5]"

definition msg_stop_requested :: pystr where \<comment> \<open>the flow was asked to stop\<close>
  "msg_stop_requested = [0x6D41, 0x7A0B, 0x88AB, 0x8BF7, 0x6C42, 0x505C, 0x6B62]"

definition msg_max_retries :: pystr where \<comment> \<open>maximum number of retries reached without success\<close>
  "msg_max_retries = [0x8FBE, 0x5230, 0x6700, 0x5927, 0x91CD, 0x8BD5, 0x6B21, 0x6570, 0x4ECD,
     0x672A, 0x6210, 0x529F]"

definition msg_stats :: pystr where \<comment> \<open>execution statistics\<close>
  "msg_stats = [0x6267, 0x884C, 0x7EDF, 0x8BA1]"

definition msg_connect_failed :: "pystr \<Rightarrow> pystr" where \<comment> \<open>connecting to the Appium server failed\<close>
  "msg_connect_failed e = [0x8FDE, 0x63A5, 0x20, 0x41, 0x70, 0x70, 0x69, 0x75, 0x6D, 0x20,
     0x73, 0x65, 0x72, 0x76, 0x65, 0x72, 0x20, 0x5931, 0x8D25, 0x3A, 0x20] @ e"

definition msg_use_preheated :: pystr where \<comment> \<open>using the preheated driver, skipping connection and settings\<close>
  "msg_use_preheated = [0x4F7F, 0x7528, 0x9884, 0x70ED, 0x597D, 0x7684, 0x64, 0x72, 0x69,
     0x76, 0x65, 0x72, 0xFF0C, 0x8DF3, 0x8FC7, 0x8FDE, 0x63A5, 0x548C, 0x8BBE, 0x7F6E,
     0x6B65, 0x9AA4]"

definition msg_start_flow :: pystr where \<comment> \<open>starting the ticket flow\<close>
  "msg_start_flow = [0x5F00, 0x59CB, 0x6267, 0x884C, 0x62A2, 0x7968, 0x6D41, 0x7A0B]"

definition msg_settings_failed :: "pystr \<Rightarrow> pystr" where \<comment> \<open>updating the driver settings failed\<close>
  "msg_settings_failed e = [0x66F4, 0x65B0, 0x9A71, 0x52A8, 0x8BBE, 0x7F6E, 0x5931, 0x8D25,
     0x3A, 0x20] @ e"

definition msg_select_city :: "pystr \<Rightarrow> pystr" where \<comment> \<open>selecting city\<close>
  "msg_select_city c = [0x9009, 0x62E9, 0x57CE, 0x5E02, 0x3A, 0x20] @ c"

definition msg_city_not_found :: "pystr \<Rightarrow> pystr" where \<comment> \<open>city not found\<close>
  "msg_city_not_found c = [0x672A, 0x627E, 0x5230, 0x57CE, 0x5E02, 0x20] @ c"

definition msg_search_event :: "pystr \<Rightarrow> pystr" where \<comment> \<open>searching event\<close>
  "msg_search_event k = [0x641C, 0x7D22, 0x6F14, 0x51FA, 0x3A, 0x20] @ k"

definition msg_search_failed :: pystr where \<comment> \<open>could not complete the event search\<close>
  "msg_search_failed = [0x672A, 0x80FD, 0x5B8C, 0x6210, 0x6F14, 0x51FA, 0x641C, 0x7D22]"

definition msg_use_preheated_search :: "pystr \<Rightarrow> pystr" where \<comment> \<open>using the preheated search result\<close>
  "msg_use_preheated_search k = [0x4F7F, 0x7528, 0x9884, 0x70ED, 0x641C, 0x7D22, 0x7ED3,
     0x679C, 0x3A, 0x20] @ k"

definition msg_click_result_failed :: pystr where \<comment> \<open>could not click the search result\<close>
  "msg_click_result_failed = [0x672A, 0x80FD, 0x70B9, 0x51FB, 0x641C, 0x7D22, 0x7ED3, 0x679C]"

definition msg_tap_purchase :: pystr where \<comment> \<open>trying to tap the reserve/purchase button\<close>
  "msg_tap_purchase = [0x5C1D, 0x8BD5, 0x70B9, 0x51FB, 0x9884, 0x7EA6, 0x2F, 0x8D2D, 0x4E70,
     0x6309, 0x94AE]"

definition msg_purchase_not_found :: pystr where \<comment> \<open>could not find the reserve/purchase entry\<close>
  "msg_purchase_not_found = [0x672A, 0x80FD, 0x627E, 0x5230, 0x9884, 0x7EA6, 0x2F, 0x8D2D,
     0x4E70, 0x5165, 0x53E3]"

definition msg_select_date :: pystr where \<comment> \<open>selecting date\<close>
  "msg_select_date = [0x9009, 0x62E9, 0x65E5, 0x671F]"

definition msg_no_date_needed :: pystr where \<comment> \<open>no date selection needed\<close>
  "msg_no_date_needed = [0x4E0D, 0x9700, 0x8981, 0x9009, 0x62E9, 0x65E5, 0x671F]"

definition msg_select_session :: pystr where \<comment> \<open>selecting session\<close>
  "msg_select_session = [0x9009, 0x62E9, 0x573A, 0x6B21]"

definition msg_session_failed :: pystr where \<comment> \<open>could not select a session\<close>
  "msg_session_failed = [0x672A, 0x80FD, 0x9009, 0x62E9, 0x573A, 0x6B21]"

definition msg_select_price :: pystr where \<comment> \<open>selecting price\<close>
  "msg_select_price = [0x9009, 0x62E9, 0x7968, 0x4EF7]"

definition msg_price_failed :: pystr where \<comment> \<open>could not select a price\<close>
  "msg_price_failed = [0x672A, 0x80FD, 0x9009, 0x62E9, 0x7968, 0x4EF7]"

definition msg_select_quantity :: pystr where \<comment> \<open>selecting quantity\<close>
  "msg_select_quantity = [0x9009, 0x62E9, 0x6570, 0x91CF]"

definition msg_confirm_purchase :: pystr where \<comment> \<open>confirming purchase\<close>
  "msg_confirm_purchase = [0x786E, 0x8BA4, 0x8D2D, 0x4E70]"

definition msg_confirm_failed :: "pystr \<Rightarrow> pystr" where \<comment> \<open>could not enter the confirmation page\<close>
  "msg_confirm_failed t = [0x672A, 0x80FD, 0x8FDB, 0x5165, 0x786E, 0x8BA4, 0x9875, 0x9762,
     0x2C] @ t"

definition msg_phase_exception :: "pystr \<Rightarrow> pystr \<Rightarrow> pystr" where \<comment> \<open>exception in phase p\<close>
  "msg_phase_exception p e = [0x6267, 0x884C, 0x9636, 0x6BB5, 0x20] @ p @ [0x20, 0x51FA,
     0x73B0, 0x5F02, 0x5E38, 0x3A, 0x20] @ e"

definition msg_try_back :: pystr where \<comment> \<open>trying the back button to reach the home page\<close>
  "msg_try_back = [0x5C1D, 0x8BD5, 0x4F7F, 0x7528, 0x8FD4, 0x56DE, 0x6309, 0x94AE, 0x56DE,
     0x5230, 0x9996, 0x9875]"

definition msg_back_ok :: pystr where \<comment> \<open>reached the home page with the back button\<close>
  "msg_back_ok = [0x901A, 0x8FC7, 0x8FD4, 0x56DE, 0x6309, 0x94AE, 0x6210, 0x529F, 0x56DE,
     0x5230, 0x9996, 0x9875]"

definition msg_back_failed :: "pystr \<Rightarrow> pystr" where \<comment> \<open>back-button strategy failed\<close>
  "msg_back_failed e = [0x8FD4, 0x56DE, 0x6309, 0x94AE, 0x7B56, 0x7565, 0x5931, 0x8D25, 0x3A,
     0x20] @ e"

definition msg_keyword_entered :: "pystr \<Rightarrow> pystr" where \<comment> \<open>search keyword entered\<close>
  "msg_keyword_entered k = [0x5DF2, 0x8F93, 0x5165, 0x641C, 0x7D22, 0x5173, 0x952E, 0x8BCD,
     0x3A, 0x20] @ k"

definition msg_keyword_failed :: "pystr \<Rightarrow> pystr" where \<comment> \<open>entering the search keyword failed\<close>
  "msg_keyword_failed e = [0x8F93, 0x5165, 0x641C, 0x7D22, 0x5173, 0x952E, 0x8BCD, 0x5931,
     0x8D25, 0x3A, 0x20] @ e"

definition msg_search_no_click :: pystr where \<comment> \<open>search done, not clicking the result\<close>
  "msg_search_no_click = [0x5DF2, 0x6267, 0x884C, 0x641C, 0x7D22, 0xFF0C, 0x4E0D, 0x70B9,
     0x51FB, 0x641C, 0x7D22, 0x7ED3, 0x679C]"

definition msg_select_viewer :: "pystr \<Rightarrow> pystr" where \<comment> \<open>selecting viewer n\<close>
  "msg_select_viewer n = [0x9009, 0x62E9, 0x89C2, 0x6F14, 0x4EBA, 0x20] @ n"

definition msg_viewer_failed :: "pystr \<Rightarrow> pystr" where \<comment> \<open>viewer selection failed\<close>
  "msg_viewer_failed e = [0x89C2, 0x6F14, 0x4EBA, 0x9009, 0x62E9, 0x5931, 0x8D25, 0x3A, 0x20]
     @ e"

definition msg_try_day :: "pystr \<Rightarrow> pystr" where \<comment> \<open>trying to select day\<close>
  "msg_try_day d = [0x5C1D, 0x8BD5, 0x9009, 0x62E9, 0x65E5, 0x671F, 0x3A, 0x20] @ d"

definition msg_day_ok :: "pystr \<Rightarrow> pystr" where \<comment> \<open>day selected\<close>
  "msg_day_ok d = [0x6210, 0x529F, 0x9009, 0x62E9, 0x65E5, 0x671F, 0x3A, 0x20] @ d"

definition msg_day_failed :: pystr where \<comment> \<open>day selection failed: no such day\<close>
  "msg_day_failed = [0x65E5, 0x671F, 0x9009, 0x62E9, 0x5931, 0x8D25, 0x3A, 0x20, 0x6CA1,
     0x6709, 0x8FD9, 0x4E2A, 0x65E5, 0x671F]"

definition msg_month_failed :: pystr where \<comment> \<open>month selection failed: no such month\<close>
  "msg_month_failed = [0x6708, 0x4EFD, 0x9009, 0x62E9, 0x5931, 0x8D25, 0x3A, 0x20, 0x6CA1,
     0x6709, 0x8FD9, 0x4E2A, 0x6708, 0x4EFD]"

definition msg_no_session_container :: pystr where \<comment> \<open>session container not found, skipping session selection\<close>
  "msg_no_session_container = [0x672A, 0x627E, 0x5230, 0x573A, 0x6B21, 0x5BB9, 0x5668, 0xFF0C,
     0x8DF3, 0x8FC7, 0x573A, 0x6B21, 0x9009, 0x62E9]"

definition msg_session_not_found :: pystr where \<comment> \<open>no session choice found\<close>
  "msg_session_not_found = [0x672A, 0x627E, 0x5230, 0x573A, 0x6B21, 0x9009, 0x62E9]"

definition msg_no_price_container :: pystr where \<comment> \<open>price container not found, skipping price selection\<close>
  "msg_no_price_container = [0x672A, 0x627E, 0x5230, 0x7968, 0x4EF7, 0x5BB9, 0x5668, 0xFF0C,
     0x8DF3, 0x8FC7, 0x7968, 0x4EF7, 0x9009, 0x62E9]"

definition msg_price_not_found :: pystr where \<comment> \<open>no selector found a price element\<close>
  "msg_price_not_found = [0x6240, 0x6709, 0x9009, 0x62E9, 0x5668, 0x90FD, 0x65E0, 0x6CD5,
     0x627E, 0x5230, 0x7968, 0x4EF7, 0x5143, 0x7D20]"

definition msg_driver_uninit :: pystr where \<comment> \<open>the Appium driver is not initialised yet\<close>
  "msg_driver_uninit = [0x41, 0x70, 0x70, 0x69, 0x75, 0x6D, 0x20, 0x64, 0x72, 0x69, 0x76,
     0x65, 0x72, 0x20, 0x5C1A, 0x672A, 0x521D, 0x59CB, 0x5316]"

definition phase_value :: "runner_phase \<Rightarrow> string" where
  "phase_value p = (case p of
      INIT \<Rightarrow> ''init'' | CONNECTING \<Rightarrow> ''connecting''
    | APPLYING_SETTINGS \<Rightarrow> ''applying_settings'' | SELECTING_CITY \<Rightarrow> ''selecting_city''
    | SEARCHING_EVENT \<Rightarrow> ''searching_event'' | TAPPING_PURCHASE \<Rightarrow> ''tapping_purchase''
    | SELECTING_DATE \<Rightarrow> ''selecting_date'' | SELECTING_SESSION \<Rightarrow> ''selecting_session''
    | SELECTING_PRICE \<Rightarrow> ''selecting_price'' | SELECTING_QUANTITY \<Rightarrow> ''selecting_quantity''
    | CONFIRMING_PURCHASE \<Rightarrow> ''confirming_purchase'' | SELECTING_USERS \<Rightarrow> ''selecting_users''
    | SUBMITTING_ORDER \<Rightarrow> ''submitting_order'' | COMPLETED \<Rightarrow> ''completed''
    | STOPPED \<Rightarrow> ''stopped'' | FAILED \<Rightarrow> ''failed'')"

definition failure_value :: "failure_reason \<Rightarrow> string" where
  "failure_value r = (case r of
      USER_STOP \<Rightarrow> ''user_stop'' | APPIUM_CONNECTION \<Rightarrow> ''appium_connection_failed''
    | FLOW_FAILURE \<Rightarrow> ''flow_failure'' | UNEXPECTED \<Rightarrow> ''unexpected_error''
    | MAX_RETRIES \<Rightarrow> ''max_retries_reached'')"

section \<open>Numbers\<close>

text \<open>
  A Python \<^verbatim>\<open>float\<close> is a finite value, idealised as a real, or one of the three
  special values. Clock readings and durations are finite; \<^verbatim>\<open>start_time\<close> is whatever
  float the caller passes.
\<close>

datatype pyfloat = Finite real | PosInf | NegInf | NaN

definition float_truthy :: "pyfloat \<Rightarrow> bool" where
  "float_truthy f = (case f of Finite x \<Rightarrow> x \<noteq> 0 | _ \<Rightarrow> True)"

text \<open>\<^verbatim>\<open>f > t\<close> for a finite \<open>t\<close>.\<close>

definition float_gt :: "pyfloat \<Rightarrow> real \<Rightarrow> bool" where
  "float_gt f t = (case f of Finite x \<Rightarrow> x > t | PosInf \<Rightarrow> True | NegInf \<Rightarrow> False | NaN \<Rightarrow> False)"

text \<open>\<^verbatim>\<open>f - t\<close> for a finite \<open>t\<close>.\<close>

definition float_sub :: "pyfloat \<Rightarrow> real \<Rightarrow> pyfloat" where
  "float_sub f t = (case f of Finite x \<Rightarrow> Finite (x - t) | PosInf \<Rightarrow> PosInf
                    | NegInf \<Rightarrow> NegInf | NaN \<Rightarrow> NaN)"

text \<open>\<^verbatim>\<open>min(a, f)\<close> for a finite \<open>a\<close>: Python returns \<open>f\<close> when \<^verbatim>\<open>f < a\<close> and \<open>a\<close>
  otherwise.\<close>

definition float_min :: "real \<Rightarrow> pyfloat \<Rightarrow> pyfloat" where
  "float_min a f = (case f of Finite x \<Rightarrow> Finite (if x < a then x else a)
                    | PosInf \<Rightarrow> Finite a | NegInf \<Rightarrow> NegInf | NaN \<Rightarrow> Finite a)"

text \<open>\<^verbatim>\<open>int(f)\<close> truncates towards zero and raises on the special values.\<close>

definition float_to_int :: "pyfloat \<Rightarrow> exc + int" where
  "float_to_int f = (case f of
      Finite x \<Rightarrow> Inr (if 0 \<le> x then \<lfloor>x\<rfloor> else \<lceil>x\<rceil>)
    | PosInf \<Rightarrow> Inl (Exc (OtherException ''OverflowError'')
                       (ascii ''cannot convert float infinity to integer''))
    | NegInf \<Rightarrow> Inl (Exc (OtherException ''OverflowError'')
                       (ascii ''cannot convert float infinity to integer''))
    | NaN \<Rightarrow> Inl (Exc (OtherException ''ValueError'')
                    (ascii ''cannot convert float NaN to integer'')))"

text \<open>\<^verbatim>\<open>round(x, 3)\<close> on the idealised value: to the nearest thousandth, ties to even.\<close>

definition round_half_even :: "real \<Rightarrow> int" where
  "round_half_even x =
     (let f = \<lfloor>x\<rfloor>; d = x - of_int f in
      if d < 1 / 2 then f else if 1 / 2 < d then f + 1 else if even f then f else f + 1)"

definition py_round3 :: "real \<Rightarrow> real" where
  "py_round3 x = of_int (round_half_even (x * 1000)) / 1000"

text \<open>
  \<^verbatim>\<open>int(s)\<close> on a string, base 10: surrounding whitespace is stripped, a sign may come
  first, single underscores may separate digits. Only the ASCII digits are modelled;
  anything else is the \<^verbatim>\<open>ValueError\<close>.
\<close>

definition is_digit :: "nat \<Rightarrow> bool" where
  "is_digit c \<longleftrightarrow> 48 \<le> c \<and> c \<le> 57"

fun int_body_ok :: "pystr \<Rightarrow> bool" where
  "int_body_ok [] = False"
| "int_body_ok [c] = is_digit c"
| "int_body_ok (c # d # r) = (is_digit c \<and> (if d = 95 then int_body_ok r else int_body_ok (d # r)))"

primrec digits_value :: "pystr \<Rightarrow> nat \<Rightarrow> nat" where
  "digits_value [] acc = acc"
| "digits_value (c # cs) acc = digits_value cs (if c = 95 then acc else 10 * acc + (c - 48))"

definition py_int :: "pystr \<Rightarrow> exc + int" where
  "py_int t =
     (let u = py_strip t;
          neg = (case u of [] \<Rightarrow> False | c # _ \<Rightarrow> c = 45);
          body = (case u of [] \<Rightarrow> [] | c # r \<Rightarrow> if c = 45 \<or> c = 43 then r else u)
      in if int_body_ok body
         then Inr (if neg then - int (digits_value body 0) else int (digits_value body 0))
         else Inl (Exc (OtherException ''ValueError'')
                     (ascii ''invalid literal for int() with base 10'')))"

text \<open>\<^verbatim>\<open>s.replace(c, "")\<close> for a one-character \<open>c\<close>.\<close>

definition remove_char :: "nat \<Rightarrow> pystr \<Rightarrow> pystr" where
  "remove_char c t = filter (\<lambda>x. x \<noteq> c) t"


section \<open>Data model\<close>

text \<open>
  \<^verbatim>\<open>AppTicketConfig\<close> lives in \<^verbatim>\<open>damai_appium/config.py\<close>; the runner reads these
  attributes of it. \<^verbatim>\<open>None\<close> is \<open>None\<close>; the delays are finite floats.
\<close>

record app_ticket_config =
  endpoint :: pystr
  desired_capabilities :: "(pystr \<times> pystr) list"
  wait_timeout :: real
  retry_delay :: real
  city :: "pystr option"
  keyword :: "pystr option"
  date :: "pystr option"
  session_index :: "int option"
  price_index :: "int option"
  ticket_quantity :: int

text \<open>
  The locators of the source, by name. \<open>CityListItem c\<close> is the XPath with the city
  text, \<open>WebViewItem k\<close> the \<open>k\<close>-th child of \<open>WebViews\<close> (XPath positions count from
  1), \<open>MonthItem\<close> and \<open>DayItem\<close> carry the formatted month and day (\<open>None\<close> formats as
  \<^verbatim>\<open>"None"\<close>), the session and price locators the configured index.
\<close>

datatype locator =
    HomeCity | CitySearchList | CityListItem pystr | SearchEditText
  | HomepageHeaderSearch | HeaderSearchInput | TvWord | FirstSearchItem
  | PurchaseStatusBar | ThemeDialogConfirm | WebViews | WebViewItem nat | ConfirmButton
  | Calendar | MonthItem "nat option" | DayItem "nat option"
  | PerformFlowLayout | SessionLinearLayout int | SessionViewGroup int | AnyViewGroup
  | PriceFlowLayout | PriceFrameLayout int | AnyFrameLayout
  | TvNum | ImgJia | ImgJian | BtnBuyView

text \<open>The values that occur in the context dictionaries of log entries.\<close>

datatype ctx_val = CInt int | CStr pystr | CBool bool | CReal real | CNone | CXPath locator

record ticket_run_log_entry =
  timestamp :: real
  level :: log_level
  message :: pystr
  phase :: runner_phase
  entry_context :: "(string \<times> ctx_val) list"

record ticket_run_metrics =
  start_time :: real
  end_time :: real
  attempts :: int
  success :: bool
  final_phase :: runner_phase
  failure_reason :: "pystr option"
  failure_code :: "failure_reason option"

record ticket_run_report =
  metrics :: ticket_run_metrics
  logs :: "ticket_run_log_entry list"
  report_phase_history :: "runner_phase list"

text \<open>The two derived entries of \<^verbatim>\<open>TicketRunMetrics.to_dict\<close> (lines 105-119).\<close>

definition duration_seconds :: "ticket_run_metrics \<Rightarrow> real" where
  "duration_seconds m = py_round3 (max (end_time m - start_time m) 0)"

definition retries :: "ticket_run_metrics \<Rightarrow> int" where
  "retries m = max (attempts m - 1) 0"

subsection \<open>The automation driver and the other collaborators\<close>

datatype wait_cond = Visible | Present | Clickable | AllVisible | AllPresent

type_synonym elem = nat

text \<open>
  A lookup is \<^verbatim>\<open>WebDriverWait(driver, t).until(EC.cond(locator))\<close> (the timeout in
  milliseconds), \<^verbatim>\<open>driver.find_element\<close>, or \<^verbatim>\<open>find_element(s)\<close> on an element.
\<close>

datatype query = Until wait_cond locator nat | Find locator | FindIn elem locator

datatype action =
    Click elem | SendKeys elem pystr | Clear elem | PressKeycode nat
  | ClickGesture int int nat | UpdateSettings | Quit

record rect =
  rect_x :: int
  rect_y :: int
  rect_width :: int
  rect_height :: int

datatype event = Did action | Slept real

text \<open>
  The collaborators answer as oracles: the \<open>k\<close>-th poll of the stop signal, the \<open>k\<close>-th
  call of the logger, the \<open>k\<close>-th reading of \<^verbatim>\<open>time.time()\<close>, and the \<open>k\<close>-th call made
  to the driver (or to the driver factory) each return a value or raise. Since the
  runner is deterministic, every behaviour of a collaborator over one run is such a
  function. \<open>strptime\<close> is \<^verbatim>\<open>datetime.strptime(s, "%Y-%m-%d %H:%M:%S")\<close>, giving month
  and day.
\<close>

record env =
  stop_signal :: "nat \<Rightarrow> exc + bool"
  logger :: "nat \<Rightarrow> exc + unit"
  clock :: "nat \<Rightarrow> real"
  drv_create :: "nat \<Rightarrow> pystr \<Rightarrow> (pystr \<times> pystr) list \<Rightarrow> exc + nat option"
  drv_find :: "nat \<Rightarrow> query \<Rightarrow> exc + elem"
  drv_find_all :: "nat \<Rightarrow> query \<Rightarrow> exc + elem list"
  drv_act :: "nat \<Rightarrow> action \<Rightarrow> exc + unit"
  drv_text :: "nat \<Rightarrow> elem \<Rightarrow> exc + pystr"
  drv_rect :: "nat \<Rightarrow> elem \<Rightarrow> exc + rect"
  strptime :: "pystr \<Rightarrow> exc + nat \<times> nat"

text \<open>
  The fields of \<^verbatim>\<open>DamaiAppTicketRunner\<close> that change, the positions reached in the
  four oracles, and \<open>trace\<close>: the driver commands issued and the sleeps taken, in order
  (what a recording test double would see).
\<close>

record runner =
  current_phase :: runner_phase
  phase_history :: "runner_phase list"
  last_report :: "ticket_run_report option"
  log_entries :: "ticket_run_log_entry list"
  run_start_time :: real
  driver :: "nat option"
  wait :: "real option"
  stop_polls :: nat
  logger_calls :: nat
  clock_reads :: nat
  driver_calls :: nat
  trace :: "event list"

section \<open>Statements: state, exceptions, \<^verbatim>\<open>try\<close>\<close>

text \<open>A method body runs on the runner and returns a value or raises.\<close>

type_synonym 'a prog = "runner \<Rightarrow> (exc + 'a) \<times> runner"

definition pret :: "'a \<Rightarrow> 'a prog" where
  "pret x = (\<lambda>s. (Inr x, s))"

definition praise :: "exc \<Rightarrow> 'a prog" where
  "praise e = (\<lambda>s. (Inl e, s))"

definition pbind :: "'a prog \<Rightarrow> ('a \<Rightarrow> 'b prog) \<Rightarrow> 'b prog" where
  "pbind m f = (\<lambda>s. case m s of (Inl e, s') \<Rightarrow> (Inl e, s') | (Inr x, s') \<Rightarrow> f x s')"

definition pthen :: "'a prog \<Rightarrow> 'b prog \<Rightarrow> 'b prog" where
  "pthen m n = pbind m (\<lambda>_. n)"

text \<open>\<^verbatim>\<open>try: m except Exception as e: h e\<close>; a handler that does not apply re-raises.\<close>

definition pcatch :: "'a prog \<Rightarrow> (exc \<Rightarrow> 'a prog) \<Rightarrow> 'a prog" where
  "pcatch m h = (\<lambda>s. case m s of (Inl e, s') \<Rightarrow> h e s' | (Inr x, s') \<Rightarrow> (Inr x, s'))"

text \<open>\<^verbatim>\<open>try: m finally: fin\<close>: \<open>fin\<close> always runs; if it raises, that exception wins.\<close>

definition pfinally :: "'a prog \<Rightarrow> unit prog \<Rightarrow> 'a prog" where
  "pfinally m fin =
     (\<lambda>s. case m s of (r, s') \<Rightarrow>
        (case fin s' of (Inl e, s'') \<Rightarrow> (Inl e, s'') | (Inr _, s'') \<Rightarrow> (r, s'')))"

definition pmodify :: "(runner \<Rightarrow> runner) \<Rightarrow> unit prog" where
  "pmodify f = (\<lambda>s. (Inr (), f s))"

definition pget :: "(runner \<Rightarrow> 'a) \<Rightarrow> 'a prog" where
  "pget f = (\<lambda>s. (Inr (f s), s))"

definition pwhen :: "bool \<Rightarrow> unit prog \<Rightarrow> unit prog" where
  "pwhen c m = (if c then m else pret ())"

subsection \<open>Calls to the collaborators\<close>

definition poll_stop_signal :: "env \<Rightarrow> bool prog" where
  "poll_stop_signal env =
     (\<lambda>s. (stop_signal env (stop_polls s), s\<lparr>stop_polls := Suc (stop_polls s)\<rparr>))"

definition call_logger :: "env \<Rightarrow> unit prog" where
  "call_logger env =
     (\<lambda>s. (logger env (logger_calls s), s\<lparr>logger_calls := Suc (logger_calls s)\<rparr>))"

definition time_time :: "env \<Rightarrow> real prog" where
  "time_time env = (\<lambda>s. (Inr (clock env (clock_reads s)), s\<lparr>clock_reads := Suc (clock_reads s)\<rparr>))"

text \<open>\<^verbatim>\<open>time.sleep(f)\<close> raises on a negative, infinite or NaN length.\<close>

definition sleep_float :: "pyfloat \<Rightarrow> unit prog" where
  "sleep_float f = (case f of
      Finite d \<Rightarrow>
        if d < 0 then praise (Exc (OtherException ''ValueError'')
                                (ascii ''sleep length must be non-negative''))
        else pmodify (\<lambda>s. s\<lparr>trace := trace s @ [Slept d]\<rparr>)
    | PosInf \<Rightarrow> praise (Exc (OtherException ''OverflowError'')
                          (ascii ''timestamp too large to convert to C _PyTime_t''))
    | NegInf \<Rightarrow> praise (Exc (OtherException ''ValueError'')
                          (ascii ''sleep length must be non-negative''))
    | NaN \<Rightarrow> praise (Exc (OtherException ''ValueError'')
                       (ascii ''Invalid value NaN (not a number)'')))"

definition sleep :: "real \<Rightarrow> unit prog" where
  "sleep d = sleep_float (Finite d)"

definition create_call :: "env \<Rightarrow> app_ticket_config \<Rightarrow> (nat option) prog" where
  "create_call env cfg =
     (\<lambda>s. (drv_create env (driver_calls s) (endpoint cfg) (desired_capabilities cfg),
           s\<lparr>driver_calls := Suc (driver_calls s)\<rparr>))"

definition find_call :: "env \<Rightarrow> query \<Rightarrow> elem prog" where
  "find_call env q = (\<lambda>s. (drv_find env (driver_calls s) q, s\<lparr>driver_calls := Suc (driver_calls s)\<rparr>))"

definition find_all_call :: "env \<Rightarrow> query \<Rightarrow> (elem list) prog" where
  "find_all_call env q =
     (\<lambda>s. (drv_find_all env (driver_calls s) q, s\<lparr>driver_calls := Suc (driver_calls s)\<rparr>))"

definition text_call :: "env \<Rightarrow> elem \<Rightarrow> pystr prog" where
  "text_call env el = (\<lambda>s. (drv_text env (driver_calls s) el, s\<lparr>driver_calls := Suc (driver_calls s)\<rparr>))"

definition rect_call :: "env \<Rightarrow> elem \<Rightarrow> rect prog" where
  "rect_call env el = (\<lambda>s. (drv_rect env (driver_calls s) el, s\<lparr>driver_calls := Suc (driver_calls s)\<rparr>))"

definition act_call :: "env \<Rightarrow> action \<Rightarrow> unit prog" where
  "act_call env a =
     (\<lambda>s. (drv_act env (driver_calls s) a,
           s\<lparr>driver_calls := Suc (driver_calls s), trace := trace s @ [Did a]\<rparr>))"


section \<open>The runner's methods\<close>

subsection \<open>State helpers (lines 218-235) and utility helpers (lines 1045-1097)\<close>

definition transition_to :: "runner_phase \<Rightarrow> runner \<Rightarrow> runner" where
  "transition_to ph s =
     (if ph = current_phase s then s
      else s\<lparr>current_phase := ph, phase_history := phase_history s @ [ph]\<rparr>)"

definition mark_failure :: "runner \<Rightarrow> runner" where
  "mark_failure s = (if current_phase s \<noteq> FAILED then transition_to FAILED s else s)"

definition mark_stopped :: "runner \<Rightarrow> runner" where
  "mark_stopped s = (if current_phase s \<noteq> STOPPED then transition_to STOPPED s else s)"

definition ensure_driver :: "nat prog" where
  "ensure_driver =
     (\<lambda>s. case driver s of
        None \<Rightarrow> (Inl (Exc TicketRunnerError msg_driver_uninit), s)
      | Some d \<Rightarrow> (Inr d, s))"

definition should_stop :: "env \<Rightarrow> bool prog" where
  "should_stop env = pcatch (poll_stop_signal env) (\<lambda>_. pret False)"

definition ensure_not_stopped :: "env \<Rightarrow> unit prog" where
  "ensure_not_stopped env =
     pbind (should_stop env)
       (\<lambda>stop. if stop then praise (Exc TicketRunnerStopped msg_stop_requested) else pret ())"

definition setdefault :: "string \<Rightarrow> ctx_val \<Rightarrow> (string \<times> ctx_val) list \<Rightarrow> (string \<times> ctx_val) list" where
  "setdefault k v c = (case map_of c k of None \<Rightarrow> c @ [(k, v)] | Some _ \<Rightarrow> c)"

text \<open>\<^verbatim>\<open>_log\<close>: the entry is appended, then the logger is called; a \<^verbatim>\<open>TypeError\<close> leads
  to a second call with two arguments; whatever the logger raises is dropped.\<close>

definition runner_log :: "env \<Rightarrow> log_level \<Rightarrow> pystr \<Rightarrow> (string \<times> ctx_val) list \<Rightarrow> unit prog" where
  "runner_log env lvl msg ctx =
     pbind (pget current_phase) (\<lambda>ph.
     pbind (time_time env) (\<lambda>now.
     pthen (pmodify (\<lambda>s. s\<lparr>log_entries := log_entries s @
              [\<lparr>timestamp = now, level = lvl, message = msg, phase = ph,
                entry_context = setdefault ''phase'' (CStr (ascii (phase_value ph))) ctx\<rparr>]\<rparr>))
       (pcatch (call_logger env)
          (\<lambda>e. if is_type_error e then pcatch (call_logger env) (\<lambda>_. pret ())
               else pret ()))))"

text \<open>\<^verbatim>\<open>_create_driver\<close>: the driver factory or \<^verbatim>\<open>webdriver.Remote\<close>, one call out.\<close>

definition create_driver :: "env \<Rightarrow> app_ticket_config \<Rightarrow> (nat option) prog" where
  "create_driver env cfg = create_call env cfg"

definition apply_driver_settings :: "env \<Rightarrow> unit prog" where
  "apply_driver_settings env =
     pbind (pget driver) (\<lambda>d.
       if d = None then pret ()
       else pcatch (act_call env UpdateSettings)
              (\<lambda>exc. runner_log env WARNING (msg_settings_failed (exc_str exc)) []))"

definition cleanup_driver :: "env \<Rightarrow> unit prog" where
  "cleanup_driver env =
     pbind (pget driver) (\<lambda>d.
       pwhen (d \<noteq> None)
         (pfinally (pcatch (act_call env Quit) (\<lambda>_. pret ()))
                   (pmodify (\<lambda>s. s\<lparr>driver := None, wait := None\<rparr>))))"

subsection \<open>Interaction primitives (lines 516-590)\<close>

fun back_presses :: "env \<Rightarrow> nat \<Rightarrow> unit prog" where
  "back_presses env 0 = pret ()"
| "back_presses env (Suc k) =
     pthen (ensure_not_stopped env)
    (pthen (act_call env (PressKeycode 4))
    (pthen (sleep (1 / 2))
    (pbind (pcatch (pthen (find_call env (Until Visible HomepageHeaderSearch 1000))
                   (pthen (runner_log env SUCCESS msg_back_ok []) (pret True)))
              (\<lambda>_. pret False))
       (\<lambda>home. if home then pret () else back_presses env k))))"

definition navigate_to_homepage :: "env \<Rightarrow> unit prog" where
  "navigate_to_homepage env =
     pthen (ensure_not_stopped env)
    (pthen ensure_driver
    (pcatch (pthen (runner_log env INFO msg_try_back []) (back_presses env 5))
       (\<lambda>e. runner_log env WARNING (msg_back_failed (exc_str e)) [])))"

fun try_selectors :: "env \<Rightarrow> nat \<Rightarrow> locator list \<Rightarrow> bool prog" where
  "try_selectors env timeout [] = pret False"
| "try_selectors env timeout (sel # rest) =
     pthen (ensure_not_stopped env)
    (pbind (pcatch
        (pbind (find_call env (Until Visible sel timeout)) (\<lambda>element.
           pcatch (pthen (act_call env (Click element)) (pret True))
             (\<lambda>_. pbind (rect_call env element) (\<lambda>r.
                   pthen (act_call env (ClickGesture (rect_x r + rect_width r div 2)
                                          (rect_y r + rect_height r div 2) 50))
                         (pret True)))))
        (\<lambda>_. pret False))
       (\<lambda>clicked. if clicked then pret True else try_selectors env timeout rest))"

definition smart_wait_and_click :: "env \<Rightarrow> locator \<Rightarrow> locator list \<Rightarrow> nat \<Rightarrow> bool prog" where
  "smart_wait_and_click env selector backups timeout =
     pthen ensure_driver (try_selectors env timeout (selector # backups))"


subsection \<open>Flow steps (lines 650-1040)\<close>

definition get_visible_cities :: "env \<Rightarrow> pystr \<Rightarrow> (elem option) prog" where
  "get_visible_cities env c =
     pcatch
       (pbind (find_call env (Until Present CitySearchList 2000)) (\<lambda>current_container.
        pbind (find_all_call env (FindIn current_container (CityListItem c))) (\<lambda>city_elements.
        pret (case city_elements of [] \<Rightarrow> None | el # _ \<Rightarrow> Some el))))
       (\<lambda>_. pret None)"

text \<open>The first \<^verbatim>\<open>try\<close> of \<^verbatim>\<open>_select_city\<close> either returns (\<open>Some\<close> of the result) or
  has entered the city page (\<open>None\<close>).\<close>

definition select_city :: "env \<Rightarrow> pystr \<Rightarrow> bool prog" where
  "select_city env c =
     pthen ensure_driver
    (pbind (pcatch
        (pbind (find_call env (Until Visible HomeCity 3000)) (\<lambda>city_entry.
         pbind (text_call env city_entry) (\<lambda>t.
           if c = py_strip t then pret (Some True)
           else pthen (act_call env (Click city_entry)) (pthen (sleep 1) (pret None)))))
        (\<lambda>_. pret (Some False)))
       (\<lambda>early. case early of
          Some b \<Rightarrow> pret b
        | None \<Rightarrow>
            pcatch
              (pbind (find_call env (Until Visible SearchEditText 3000)) (\<lambda>search_box.
               pthen (act_call env (Click search_box))
              (pthen (act_call env (SendKeys search_box c))
              (pthen (sleep (1 / 2))
              (pthen (sleep 1)
              (pbind (get_visible_cities env c) (\<lambda>city_element.
                 case city_element of
                   Some el \<Rightarrow> pthen (act_call env (Click el)) (pret True)
                 | None \<Rightarrow> pret False)))))))
              (\<lambda>_. pret False)))"

definition search_event :: "env \<Rightarrow> pystr \<Rightarrow> bool \<Rightarrow> bool \<Rightarrow> bool prog" where
  "search_event env kw click_result skip_search =
     pthen ensure_driver
    (pbind (if \<not> skip_search then
              pcatch
                (pbind (find_call env (Until Visible HomepageHeaderSearch 2000)) (\<lambda>search_input_btn.
                 pthen (act_call env (Click search_input_btn))
                (pbind (find_call env (Until Visible HeaderSearchInput 2000)) (\<lambda>search_input.
                 pthen (sleep (1 / 2))
                (pthen (act_call env (Click search_input))
                (pthen (act_call env (Clear search_input))
                (pthen (act_call env (SendKeys search_input kw))
                (pthen (runner_log env INFO (msg_keyword_entered kw) []) (pret True)))))))))
                (\<lambda>e. if is_timeout e
                      then pthen (runner_log env ERROR (msg_keyword_failed (exc_str e)) []) (pret False)
                      else praise e)
            else pret True)
       (\<lambda>go. if \<not> go then pret False
          else
            pthen (pwhen (\<not> skip_search)
                     (pcatch
                        (pbind (find_all_call env (Until AllVisible TvWord 1000)) (\<lambda>search_results.
                           case search_results of
                             r # _ \<Rightarrow> act_call env (Click r)
                           | [] \<Rightarrow> act_call env (PressKeycode 66)))
                        (\<lambda>_. act_call env (PressKeycode 66))))
           (if \<not> click_result
            then pthen (runner_log env INFO msg_search_no_click []) (pret True)
            else pthen (sleep (1 / 2))
                (pcatch
                   (pbind (find_call env (Until Visible FirstSearchItem 3000)) (\<lambda>first_result.
                    pthen (act_call env (Click first_result)) (pthen (sleep (1 / 2)) (pret True))))
                   (\<lambda>e. if is_timeout e then pret False else praise e)))))"

definition tap_purchase_button :: "env \<Rightarrow> bool prog" where
  "tap_purchase_button env =
     pthen ensure_driver
    (pcatch
       (pbind (find_call env (Until Visible PurchaseStatusBar 1500)) (\<lambda>element.
        pthen (act_call env (Click element)) (pret True)))
       (\<lambda>_. pret False))"

fun select_viewers :: "env \<Rightarrow> nat list \<Rightarrow> unit prog" where
  "select_viewers env [] = pret ()"
| "select_viewers env (i # rest) =
     pthen (ensure_not_stopped env)
    (pthen (runner_log env INFO (msg_select_viewer (str_int (int i - 1)))
              [(''xpath'', CXPath (WebViewItem (i + 1)))])
    (pbind (find_call env (Find (WebViewItem (i + 1)))) (\<lambda>view_element.
     pthen (act_call env (Click view_element))
    (pthen (sleep (1 / 2))
           (select_viewers env rest)))))"

definition select_theme_dialog :: "env \<Rightarrow> unit prog" where
  "select_theme_dialog env =
     pthen ensure_driver
    (pbind (smart_wait_and_click env ThemeDialogConfirm [] 1000) (\<lambda>found.
       pwhen found
         (pthen (sleep 1)
         (pcatch
            (pbind (find_all_call env (Until AllPresent WebViews 3000)) (\<lambda>all_views.
             pthen (pwhen (3 \<le> length all_views)
                      (pthen (select_viewers env [2 ..< length all_views - 1])
                      (pthen (smart_wait_and_click env ConfirmButton [] 1500) (pret ()))))
                   (act_call env (PressKeycode 4))))
            (\<lambda>e. runner_log env ERROR (msg_viewer_failed (exc_str e)) [])))))"

definition fmt_opt :: "nat option \<Rightarrow> pystr" where
  "fmt_opt v = (case v of None \<Rightarrow> ascii ''None'' | Some n \<Rightarrow> str_nat n)"

definition select_date :: "env \<Rightarrow> app_ticket_config \<Rightarrow> bool prog" where
  "select_date env cfg =
     pthen ensure_driver
    (pbind (pcatch (pbind (find_call env (Until Present Calendar 1000)) (\<lambda>el. pret (Some el)))
              (\<lambda>e. if is_timeout e then pret None else praise e))
       (\<lambda>date_moons. case date_moons of
          None \<Rightarrow> pret False
        | Some _ \<Rightarrow>
            pbind (case date cfg of
                     None \<Rightarrow> pret (None, None)
                   | Some d \<Rightarrow>
                       if d = [] then pret (None, None)
                       else (case strptime env d of
                               Inl e \<Rightarrow> praise e
                             | Inr (mo, dy) \<Rightarrow> pret (Some mo, Some dy)))
              (\<lambda>(target_month, target_day).
                 pcatch
                   (pbind (find_call env (Until Clickable (MonthItem target_month) 3000)) (\<lambda>month_element.
                    pthen (act_call env (Click month_element))
                      (pcatch
                         (pthen (runner_log env INFO (msg_try_day (fmt_opt target_day))
                                   [(''target_day'', case target_day of None \<Rightarrow> CNone
                                                    | Some dy \<Rightarrow> CInt (int dy))])
                         (pbind (find_call env (Until Clickable (DayItem target_day) 3000)) (\<lambda>day_element.
                          pthen (act_call env (Click day_element))
                         (pthen (runner_log env SUCCESS (msg_day_ok (fmt_opt target_day)) [])
                                (pret True)))))
                         (\<lambda>_. pthen (runner_log env ERROR msg_day_failed []) (pret False)))))
                   (\<lambda>_. pthen (runner_log env ERROR msg_month_failed []) (pret False)))))"

text \<open>The selector loops of \<^verbatim>\<open>_select_session\<close> and \<^verbatim>\<open>_select_price\<close>: the first
  selector that \<^verbatim>\<open>find_element\<close> resolves inside the container.\<close>

fun first_found :: "env \<Rightarrow> elem \<Rightarrow> locator list \<Rightarrow> (elem option) prog" where
  "first_found env container [] = pret None"
| "first_found env container (sel # rest) =
     pbind (pcatch (pbind (find_call env (FindIn container sel)) (\<lambda>el. pret (Some el)))
              (\<lambda>_. pret None))
       (\<lambda>r. case r of Some el \<Rightarrow> pret (Some el) | None \<Rightarrow> first_found env container rest)"

definition select_session :: "env \<Rightarrow> app_ticket_config \<Rightarrow> bool prog" where
  "select_session env cfg =
     (case session_index cfg of
        None \<Rightarrow> pret False
      | Some idx \<Rightarrow>
          pthen ensure_driver
         (pbind (pcatch (pbind (find_call env (Until Visible PerformFlowLayout 1000))
                           (\<lambda>el. pret (Some el)))
                   (\<lambda>e. if is_timeout e
                         then pthen (runner_log env WARNING msg_no_session_container []) (pret None)
                         else praise e))
            (\<lambda>found. case found of
               None \<Rightarrow> pret False
             | Some container \<Rightarrow>
                 pbind (first_found env container
                          [SessionLinearLayout idx, SessionViewGroup idx, AnyViewGroup])
                   (\<lambda>session_elem. case session_elem of
                      Some el \<Rightarrow> pthen (act_call env (Click el)) (pret True)
                    | None \<Rightarrow> pthen (runner_log env ERROR msg_session_not_found []) (pret False)))))"

definition select_price :: "env \<Rightarrow> app_ticket_config \<Rightarrow> bool prog" where
  "select_price env cfg =
     (case price_index cfg of
        None \<Rightarrow> pret False
      | Some idx \<Rightarrow>
          pthen ensure_driver
         (pbind (pcatch (pbind (find_call env (Until Visible PriceFlowLayout 2000))
                           (\<lambda>el. pret (Some el)))
                   (\<lambda>e. if is_timeout e
                         then pthen (runner_log env WARNING msg_no_price_container []) (pret None)
                         else praise e))
            (\<lambda>found. case found of
               None \<Rightarrow> pret False
             | Some container \<Rightarrow>
                 pbind (first_found env container [PriceFrameLayout idx, AnyFrameLayout])
                   (\<lambda>price_elem. case price_elem of
                      Some el \<Rightarrow> pthen (act_call env (Click el)) (pret True)
                    | None \<Rightarrow> pthen (runner_log env ERROR msg_price_not_found []) (pret False)))))"

text \<open>\<^verbatim>\<open>for _ in range(n): button.click(); time.sleep(0.3)\<close>\<close>

primrec clicks :: "env \<Rightarrow> elem \<Rightarrow> nat \<Rightarrow> unit prog" where
  "clicks env button 0 = pret ()"
| "clicks env button (Suc k) =
     pthen (act_call env (Click button)) (pthen (sleep (3 / 10)) (clicks env button k))"

text \<open>\<^verbatim>\<open>_select_quantity\<close> (lines 969-1011); U+5F20 is the counter word after the
  number on display.\<close>

definition select_quantity :: "env \<Rightarrow> app_ticket_config \<Rightarrow> bool prog" where
  "select_quantity env cfg =
     pthen ensure_driver
    (pcatch
       (let quantity = ticket_quantity cfg in
        pbind (find_call env (Until Present TvNum 1000)) (\<lambda>tv_num.
        pbind (text_call env tv_num) (\<lambda>t.
        let current_quantity_text = py_strip t in
        case py_int (remove_char 0x5F20 current_quantity_text) of
          Inl e \<Rightarrow> praise e
        | Inr current_quantity \<Rightarrow>
            pbind (find_call env (Until Clickable ImgJia 1000)) (\<lambda>plus_button.
            pbind (find_call env (Until Clickable ImgJian 1000)) (\<lambda>minus_button.
            let delta = quantity - current_quantity in
            pthen (if delta > 0 then clicks env plus_button (nat delta)
                   else if delta < 0 then clicks env minus_button (nat (- delta))
                   else pret ())
                  (pret True))))))
       (\<lambda>_. pret False))"

definition confirm_purchase :: "env \<Rightarrow> (bool \<times> pystr) prog" where
  "confirm_purchase env =
     pthen ensure_driver
    (pcatch
       (pbind (find_call env (Until Clickable BtnBuyView 3000)) (\<lambda>buy_button.
        pbind (text_call env buy_button) (\<lambda>t.
        pthen (act_call env (Click buy_button)) (pret (True, t)))))
       (\<lambda>_. pret (False, [])))"


subsection \<open>One attempt (lines 362-511)\<close>

text \<open>\<^verbatim>\<open>if self.config.x: body\<close> for an optional string: \<^verbatim>\<open>None\<close> and \<^verbatim>\<open>""\<close> are falsy.\<close>

definition when_text :: "pystr option \<Rightarrow> (pystr \<Rightarrow> unit prog) \<Rightarrow> unit prog" where
  "when_text v body = (case v of None \<Rightarrow> pret () | Some t \<Rightarrow> if t = [] then pret () else body t)"

definition perform_ticket_flow :: "env \<Rightarrow> app_ticket_config \<Rightarrow> bool \<Rightarrow> bool prog" where
  "perform_ticket_flow env cfg skip_preheat =
     pcatch
      (pthen (ensure_not_stopped env)
      (pthen (if \<not> skip_preheat then
                pthen (when_text (city cfg) (\<lambda>c.
                         pthen (pmodify (transition_to SELECTING_CITY))
                        (pthen (runner_log env STEP (msg_select_city c) [])
                        (pbind (select_city env c) (\<lambda>found.
                           pwhen (\<not> found) (runner_log env WARNING (msg_city_not_found c) []))))))
               (pthen (ensure_not_stopped env)
                      (when_text (keyword cfg) (\<lambda>k.
                         pthen (pmodify (transition_to SEARCHING_EVENT))
                        (pthen (runner_log env STEP (msg_search_event k) [])
                        (pbind (search_event env k True False) (\<lambda>found.
                           pwhen (\<not> found) (praise (Exc TicketRunnerError msg_search_failed))))))))
              else
                pthen (ensure_not_stopped env)
                      (when_text (keyword cfg) (\<lambda>k.
                         pthen (pmodify (transition_to SEARCHING_EVENT))
                        (pthen (runner_log env STEP (msg_use_preheated_search k) [])
                        (pbind (search_event env k True True) (\<lambda>found.
                           pwhen (\<not> found) (praise (Exc TicketRunnerError msg_click_result_failed))))))))
      (pthen (ensure_not_stopped env)
      (pthen (pmodify (transition_to TAPPING_PURCHASE))
      (pthen (select_theme_dialog env)
      (pthen (ensure_not_stopped env)
      (pthen (pmodify (transition_to TAPPING_PURCHASE))
      (pthen (runner_log env STEP msg_tap_purchase [])
      (pthen (pbind (tap_purchase_button env) (\<lambda>found.
                pwhen (\<not> found) (praise (Exc TicketRunnerError msg_purchase_not_found))))
      (pthen (ensure_not_stopped env)
      (pthen (pmodify (transition_to SELECTING_DATE))
      (pthen (runner_log env STEP msg_select_date [])
      (pthen (pbind (select_date env cfg) (\<lambda>found.
                pwhen (\<not> found) (runner_log env STEP msg_no_date_needed [])))
      (pthen (ensure_not_stopped env)
      (pthen (pmodify (transition_to SELECTING_SESSION))
      (pthen (runner_log env STEP msg_select_session [])
      (pthen (pbind (select_session env cfg) (\<lambda>found.
                pwhen (\<not> found) (praise (Exc TicketRunnerError msg_session_failed))))
      (pthen (ensure_not_stopped env)
      (pthen (pmodify (transition_to SELECTING_PRICE))
      (pthen (runner_log env STEP msg_select_price [])
      (pthen (pbind (select_price env cfg) (\<lambda>found.
                pwhen (\<not> found) (praise (Exc TicketRunnerError msg_price_failed))))
      (pthen (ensure_not_stopped env)
      (pthen (pmodify (transition_to SELECTING_QUANTITY))
      (pthen (runner_log env STEP msg_select_quantity [])
      (pthen (select_quantity env cfg)
      (pthen (ensure_not_stopped env)
      (pthen (pmodify (transition_to CONFIRMING_PURCHASE))
      (pthen (runner_log env STEP msg_confirm_purchase [])
      (pthen (pbind (confirm_purchase env) (\<lambda>(ok, t).
                pwhen (\<not> ok) (praise (Exc TicketRunnerError (msg_confirm_failed t)))))
      (pthen (pmodify (transition_to COMPLETED))
             (pret True)))))))))))))))))))))))))))))))
      (\<lambda>exc.
         if is_stopped exc then pthen (pmodify mark_stopped) (praise exc)
         else if is_runner_error exc then pthen (pmodify mark_failure) (praise exc)
         else pthen (pmodify mark_failure)
                (pbind (pget current_phase) (\<lambda>ph.
                   praise (Exc TicketRunnerError
                             (msg_phase_exception (ascii (phase_value ph)) (exc_str exc))))))"

definition execute_once :: "env \<Rightarrow> app_ticket_config \<Rightarrow> bool \<Rightarrow> bool prog" where
  "execute_once env cfg skip_preheat =
     pfinally
       (pthen (ensure_not_stopped env)
       (pthen (if \<not> skip_preheat then
                 pthen (pmodify (transition_to CONNECTING))
                (pthen (runner_log env STEP conn_text [])
                (pthen (pcatch (pbind (create_driver env cfg) (\<lambda>d. pmodify (\<lambda>s. s\<lparr>driver := d\<rparr>)))
                          (\<lambda>exc. praise (Exc TicketRunnerError (msg_connect_failed (exc_str exc)))))
                (pthen ensure_driver
                (pthen (pmodify (\<lambda>s. s\<lparr>wait := Some (wait_timeout cfg)\<rparr>))
                (pthen (pmodify (transition_to APPLYING_SETTINGS))
                       (apply_driver_settings env))))))
               else pthen ensure_driver (runner_log env INFO msg_use_preheated []))
       (pthen (runner_log env STEP msg_start_flow [])
              (perform_ticket_flow env cfg skip_preheat))))
       (pwhen (\<not> skip_preheat) (cleanup_driver env))"

subsection \<open>\<^verbatim>\<open>run\<close> (lines 240-357)\<close>

text \<open>
  The \<^verbatim>\<open>try\<close> statement of the attempt loop. The result is the break flag and the new
  values of the locals \<^verbatim>\<open>success\<close>, \<^verbatim>\<open>failure_code\<close> and \<^verbatim>\<open>failure_message\<close>.
\<close>

definition try_attempt ::
  "env \<Rightarrow> app_ticket_config \<Rightarrow> int \<Rightarrow> failure_reason option \<Rightarrow> pystr option
     \<Rightarrow> (bool \<times> bool \<times> failure_reason option \<times> pystr option) prog" where
  "try_attempt env cfg n fcode fmsg =
     pcatch
       (pbind (pget driver) (\<lambda>d.
        pbind (execute_once env cfg (d \<noteq> None)) (\<lambda>done.
          if done
          then pthen (runner_log env SUCCESS msg_flow_done [(''attempt'', CInt n)])
                     (pret (True, True, fcode, fmsg))
          else pret (False, False, fcode, fmsg))))
       (\<lambda>exc.
          if is_stopped exc then
            pthen (pmodify mark_stopped)
           (pthen (runner_log env WARNING (or_text (py_strip (exc_str exc)) msg_user_stopped)
                     [(''attempt'', CInt n)])
                  (pret (True, False, Some USER_STOP,
                         Some (or_text (py_strip (exc_str exc)) msg_user_stopped))))
          else if is_runner_error exc then
            pthen (pmodify mark_failure)
           (pthen (runner_log env ERROR (snd (diagnose_failure exc)) [(''attempt'', CInt n)])
                  (pret (False, False, Some (fst (diagnose_failure exc)),
                         Some (snd (diagnose_failure exc)))))
          else
            pthen (pmodify mark_failure)
           (pthen (runner_log env ERROR (msg_unexpected (exc_str exc)) [(''attempt'', CInt n)])
                  (pret (False, False, Some UNEXPECTED, Some (msg_unexpected (exc_str exc))))))"

text \<open>Lines 298-317: back to the home page before the next attempt.\<close>

definition between_attempts :: "env \<Rightarrow> app_ticket_config \<Rightarrow> int \<Rightarrow> int \<Rightarrow> bool \<Rightarrow> unit prog" where
  "between_attempts env cfg max_retries n ok =
     (if \<not> ok \<and> n < max_retries then
        pbind (should_stop env) (\<lambda>stop.
          pwhen (\<not> stop)
            (pthen (pbind (pget driver) (\<lambda>d.
                      pwhen (d = None)
                        (pcatch
                           (pthen (runner_log env INFO msg_driver_cleaned [])
                           (pthen (pbind (create_driver env cfg) (\<lambda>d. pmodify (\<lambda>s. s\<lparr>driver := d\<rparr>)))
                           (pthen (pmodify (\<lambda>s. s\<lparr>wait := Some (wait_timeout cfg)\<rparr>))
                                  (apply_driver_settings env))))
                           (\<lambda>e. runner_log env ERROR (msg_recreate_failed (exc_str e)) []))))
            (pthen (pbind (pget driver) (\<lambda>d.
                      pwhen (d \<noteq> None)
                        (pcatch (navigate_to_homepage env)
                           (\<lambda>e. runner_log env ERROR (msg_home_failed (exc_str e)) []))))
            (pthen (runner_log env INFO msg_prepare_retry [(''attempt'', CInt (n + 1))])
                   (sleep_float (Finite (max (retry_delay cfg) 0)))))))
      else pret ())"

text \<open>
  The \<^verbatim>\<open>while attempts < max_retries and not self._should_stop()\<close> loop, on the locals
  \<^verbatim>\<open>attempts\<close>, \<^verbatim>\<open>failure_code\<close> and \<^verbatim>\<open>failure_message\<close>; it returns them together with
  \<^verbatim>\<open>success\<close>.
\<close>

function attempt_loop ::
  "env \<Rightarrow> app_ticket_config \<Rightarrow> int \<Rightarrow> int \<Rightarrow> failure_reason option \<Rightarrow> pystr option
     \<Rightarrow> (int \<times> bool \<times> failure_reason option \<times> pystr option) prog" where
  "attempt_loop env cfg max_retries n fcode fmsg =
     (if n < max_retries then
        pbind (should_stop env) (\<lambda>stop.
          if stop then pret (n, False, fcode, fmsg)
          else
            pthen (runner_log env INFO (msg_attempt (str_int (n + 1)))
                     [(''attempt'', CInt (n + 1)), (''max_retries'', CInt max_retries)])
           (pbind (try_attempt env cfg (n + 1) fcode fmsg) (\<lambda>(brk, ok, fcode', fmsg').
              if brk then pret (n + 1, ok, fcode', fmsg')
              else pthen (between_attempts env cfg max_retries (n + 1) ok)
                         (attempt_loop env cfg max_retries (n + 1) fcode' fmsg'))))
      else pret (n, False, fcode, fmsg))"
  by pat_completeness auto
termination
  by (relation "measure (\<lambda>(env, cfg, max_retries, n, fcode, fmsg). nat (max_retries - n))") auto

declare attempt_loop.simps [simp del]

definition or_opt :: "pystr option \<Rightarrow> pystr \<Rightarrow> pystr" where
  "or_opt v d = (case v of None \<Rightarrow> d | Some t \<Rightarrow> or_text t d)"

text \<open>Lines 261-357: the loop, the classification of a run without failure code, the
  statistics entry and the report.\<close>

definition run_attempts :: "env \<Rightarrow> app_ticket_config \<Rightarrow> int \<Rightarrow> bool prog" where
  "run_attempts env cfg max_retries =
     pbind (attempt_loop env cfg (max 1 max_retries) 0 None None) (\<lambda>(n, ok, fcode0, fmsg0).
     pbind (time_time env) (\<lambda>t_end.
     pbind (if \<not> ok \<and> fcode0 = None then
              pbind (pget current_phase) (\<lambda>ph.
                if ph = STOPPED then pret (Some USER_STOP, Some (or_opt fmsg0 msg_stop_requested))
                else pbind (should_stop env) (\<lambda>stop.
                  if stop then pret (Some USER_STOP, Some (or_opt fmsg0 msg_stop_requested))
                  else pret (Some MAX_RETRIES, Some (or_opt fmsg0 msg_max_retries))))
            else pret (fcode0, fmsg0)) (\<lambda>(fcode, fmsg).
     pbind (pget run_start_time) (\<lambda>t_start.
     pthen (runner_log env INFO msg_stats
              ([(''attempts'', CInt n), (''retries'', CInt (max (n - 1) 0)),
                (''duration'', CReal (py_round3 (max (t_end - t_start) 0))),
                (''success'', CBool ok)]
               @ (case fcode of None \<Rightarrow> []
                  | Some c \<Rightarrow> [(''failure_code'', CStr (ascii (failure_value c)))])))
    (pthen (pmodify (\<lambda>s. s\<lparr>last_report := Some
              \<lparr>metrics = \<lparr>start_time = run_start_time s, end_time = t_end, attempts = n,
                          success = ok, final_phase = current_phase s,
                          failure_reason = fmsg, failure_code = fcode\<rparr>,
               logs = log_entries s,
               report_phase_history = phase_history s\<rparr>\<rparr>))
           (pret ok))))))"

text \<open>Lines 242-246.\<close>

definition run_init :: "env \<Rightarrow> unit prog" where
  "run_init env =
     pthen (pmodify (\<lambda>s. s\<lparr>current_phase := INIT, phase_history := [INIT],
                           log_entries := [], last_report := None\<rparr>))
           (pbind (time_time env) (\<lambda>now. pmodify (\<lambda>s. s\<lparr>run_start_time := now\<rparr>)))"

text \<open>
  Lines 249-251: the test of \<^verbatim>\<open>start_time\<close> (after its truth value), the first
  \<^verbatim>\<open>wait_time\<close> and the log entry with \<^verbatim>\<open>int(wait_time)\<close>. \<open>None\<close>: no waiting.
\<close>

definition wait_entry :: "env \<Rightarrow> pyfloat \<Rightarrow> (pyfloat option) prog" where
  "wait_entry env st =
     pbind (time_time env) (\<lambda>now.
       if \<not> float_gt st now then pret None
       else
         pbind (time_time env) (\<lambda>now'.
           case float_to_int (float_sub st now') of
             Inl e \<Rightarrow> praise e
           | Inr secs \<Rightarrow>
               pthen (runner_log env INFO (msg_wait_remaining (str_int secs)) [])
                     (pret (Some (float_sub st now')))))"

text \<open>One round of the waiting loop (lines 253-258): \<open>None\<close> when the stop signal was
  seen (\<^verbatim>\<open>return False\<close>), else the new \<^verbatim>\<open>wait_time\<close>.\<close>

definition wait_slice :: "env \<Rightarrow> pyfloat \<Rightarrow> pyfloat \<Rightarrow> (pyfloat option) prog" where
  "wait_slice env st wait_time =
     pbind (should_stop env) (\<lambda>stop.
       if stop then pthen (pmodify mark_stopped) (pret None)
       else
         pthen (sleep_float (float_min (1 / 10) wait_time))
               (pbind (time_time env) (\<lambda>now. pret (Some (float_sub st now)))))"

text \<open>\<^verbatim>\<open>while wait_time > 0\<close>: nothing bounds the number of rounds, so the loop is a
  partial function; \<open>None\<close> is "does not return". The result \<open>True\<close> is the
  \<^verbatim>\<open>return False\<close> of line 255.\<close>

partial_function (option) wait_loop ::
  "env \<Rightarrow> pyfloat \<Rightarrow> pyfloat \<Rightarrow> runner \<Rightarrow> ((exc + bool) \<times> runner) option" where
  "wait_loop env st wait_time s =
     (if float_gt wait_time 0 then
        (case wait_slice env st wait_time s of
           (Inl e, s') \<Rightarrow> Some (Inl e, s')
         | (Inr None, s') \<Rightarrow> Some (Inr True, s')
         | (Inr (Some w), s') \<Rightarrow> wait_loop env st w s')
      else Some (Inr False, s))"

definition scheduled_start ::
  "env \<Rightarrow> pyfloat option \<Rightarrow> runner \<Rightarrow> ((exc + bool) \<times> runner) option" where
  "scheduled_start env start s =
     (case start of
        None \<Rightarrow> Some (Inr False, s)
      | Some st \<Rightarrow>
          if \<not> float_truthy st then Some (Inr False, s)
          else
            (case wait_entry env st s of
               (Inl e, s1) \<Rightarrow> Some (Inl e, s1)
             | (Inr None, s1) \<Rightarrow> Some (Inr False, s1)
             | (Inr (Some w), s1) \<Rightarrow>
                 (case wait_loop env st w s1 of
                    None \<Rightarrow> None
                  | Some (Inl e, s2) \<Rightarrow> Some (Inl e, s2)
                  | Some (Inr True, s2) \<Rightarrow> Some (Inr True, s2)
                  | Some (Inr False, s2) \<Rightarrow>
                      Some (pthen (runner_log env INFO msg_start_reached []) (pret False) s2))))"

text \<open>\<^verbatim>\<open>DamaiAppTicketRunner.run\<close>: \<open>None\<close> when the call does not return, else the
  returned boolean or the exception that leaves \<^verbatim>\<open>run\<close>, and the runner afterwards.\<close>

definition run ::
  "env \<Rightarrow> app_ticket_config \<Rightarrow> int \<Rightarrow> pyfloat option \<Rightarrow> runner \<Rightarrow> ((exc + bool) \<times> runner) option" where
  "run env cfg max_retries start s =
     (case run_init env s of
        (Inl e, s1) \<Rightarrow> Some (Inl e, s1)
      | (Inr _, s1) \<Rightarrow>
          (case scheduled_start env start s1 of
             None \<Rightarrow> None
           | Some (Inl e, s2) \<Rightarrow> Some (Inl e, s2)
           | Some (Inr True, s2) \<Rightarrow> Some (Inr False, s2)
           | Some (Inr False, s2) \<Rightarrow> Some (run_attempts env cfg max_retries s2)))"

definition get_last_report :: "runner \<Rightarrow> ticket_run_report option" where
  "get_last_report s = last_report s"


section \<open>Notions used in the verification\<close>

text \<open>
  \<open>frame R m\<close>: whatever \<open>m\<close> returns or raises, the runner before and after are related
  by \<open>R\<close>. For a reflexive and transitive \<open>R\<close> the property passes through every
  statement form, so a method that is built from framed calls is framed.
\<close>

definition frame :: "(runner \<Rightarrow> runner \<Rightarrow> bool) \<Rightarrow> 'a prog \<Rightarrow> bool" where
  "frame R m \<longleftrightarrow> (\<forall>s. R s (snd (m s)))"

definition preorder_rel :: "(runner \<Rightarrow> runner \<Rightarrow> bool) \<Rightarrow> bool" where
  "preorder_rel R \<longleftrightarrow> (\<forall>s. R s s) \<and> (\<forall>a b c. R a b \<longrightarrow> R b c \<longrightarrow> R a c)"

named_theorems frame_intros

text \<open>\<open>calm\<close>: phase, history and start time untouched, the clock only read.\<close>

definition calm :: "runner \<Rightarrow> runner \<Rightarrow> bool" where
  "calm s s' \<longleftrightarrow>
     current_phase s' = current_phase s \<and> phase_history s' = phase_history s \<and>
     run_start_time s' = run_start_time s \<and> clock_reads s \<le> clock_reads s'"

named_theorems calm_intros

text \<open>\<open>noraise m\<close>: \<open>m\<close> returns normally from every state. \<open>rets Q m\<close>: every value
  \<open>m\<close> returns satisfies \<open>Q\<close>.\<close>

definition noraise :: "'a prog \<Rightarrow> bool" where
  "noraise m \<longleftrightarrow> (\<forall>s. \<exists>x s'. m s = (Inr x, s'))"

named_theorems noraise_intros

definition rets :: "('a \<Rightarrow> bool) \<Rightarrow> 'a prog \<Rightarrow> bool" where
  "rets Q m \<longleftrightarrow> (\<forall>s x s'. m s = (Inr x, s') \<longrightarrow> Q x)"

named_theorems rets_intros

text \<open>
  Three shapes of the phase history. \<open>terminal_last\<close>: \<^verbatim>\<open>COMPLETED\<close> and \<^verbatim>\<open>STOPPED\<close>
  occur at most as its last entry, which is the current phase. \<open>in_progress\<close>: they do
  not occur at all. \<open>stays\<close>, \<open>ends\<close> and \<open>attempt_ok\<close> say which shape a statement
  started in progress leaves behind, depending on how it ends.
\<close>

definition terminal_last :: "runner \<Rightarrow> bool" where
  "terminal_last s \<longleftrightarrow>
     phase_history s \<noteq> [] \<and> current_phase s = last (phase_history s) \<and>
     (\<forall>p \<in> set (butlast (phase_history s)). p \<noteq> COMPLETED \<and> p \<noteq> STOPPED)"

definition in_progress :: "runner \<Rightarrow> bool" where
  "in_progress s \<longleftrightarrow> terminal_last s \<and> current_phase s \<noteq> COMPLETED \<and> current_phase s \<noteq> STOPPED"

definition not_completed :: "runner \<Rightarrow> bool" where
  "not_completed s \<longleftrightarrow> terminal_last s \<and> current_phase s \<noteq> COMPLETED"

definition stays :: "'a prog \<Rightarrow> bool" where
  "stays m \<longleftrightarrow> (\<forall>s. in_progress s \<longrightarrow> in_progress (snd (m s)))"

definition ends :: "bool prog \<Rightarrow> bool" where
  "ends m \<longleftrightarrow>
     (\<forall>s. in_progress s \<longrightarrow>
        (case m s of (Inr b, s') \<Rightarrow> b \<and> terminal_last s' | (Inl e, s') \<Rightarrow> in_progress s'))"

definition attempt_ok :: "bool prog \<Rightarrow> bool" where
  "attempt_ok m \<longleftrightarrow>
     (\<forall>s. in_progress s \<longrightarrow>
        (case m s of
           (Inr b, s') \<Rightarrow> b \<and> terminal_last s'
         | (Inl e, s') \<Rightarrow> if is_stopped e then not_completed s' else in_progress s'))"

named_theorems stays_intros


section \<open>Frame rules\<close>

lemma frameD: "frame R m \<Longrightarrow> m s = (r, s') \<Longrightarrow> R s s'"
  by (auto simp: frame_def dest: spec [where x = s])

lemma frame_pret [frame_intros]: "preorder_rel R \<Longrightarrow> frame R (pret x)"
  by (simp add: frame_def pret_def preorder_rel_def)

lemma frame_praise [frame_intros]: "preorder_rel R \<Longrightarrow> frame R (praise e)"
  by (simp add: frame_def praise_def preorder_rel_def)

lemma frame_pget [frame_intros]: "preorder_rel R \<Longrightarrow> frame R (pget f)"
  by (simp add: frame_def pget_def preorder_rel_def)

lemma frame_pbind [frame_intros]:
  assumes R: "preorder_rel R" and m: "frame R m" and f: "\<And>x. frame R (f x)"
  shows "frame R (pbind m f)"
  unfolding frame_def
proof
  fix s
  obtain r s1 where ms: "m s = (r, s1)" by (cases "m s")
  from m ms have a: "R s s1" by (rule frameD)
  show "R s (snd (pbind m f s))"
  proof (cases r)
    case (Inl e)
    with ms a show ?thesis by (simp add: pbind_def)
  next
    case (Inr x)
    obtain r2 s2 where fs: "f x s1 = (r2, s2)" by (cases "f x s1")
    from f fs have "R s1 s2" by (rule frameD)
    with a R have "R s s2" unfolding preorder_rel_def by blast
    with ms Inr fs show ?thesis by (simp add: pbind_def)
  qed
qed

lemma frame_pthen [frame_intros]:
  "preorder_rel R \<Longrightarrow> frame R m \<Longrightarrow> frame R n \<Longrightarrow> frame R (pthen m n)"
  unfolding pthen_def by (rule frame_pbind)

lemma frame_pcatch [frame_intros]:
  assumes R: "preorder_rel R" and m: "frame R m" and h: "\<And>e. frame R (h e)"
  shows "frame R (pcatch m h)"
  unfolding frame_def
proof
  fix s
  obtain r s1 where ms: "m s = (r, s1)" by (cases "m s")
  from m ms have a: "R s s1" by (rule frameD)
  show "R s (snd (pcatch m h s))"
  proof (cases r)
    case (Inr x)
    with ms a show ?thesis by (simp add: pcatch_def)
  next
    case (Inl e)
    obtain r2 s2 where hs: "h e s1 = (r2, s2)" by (cases "h e s1")
    from h hs have "R s1 s2" by (rule frameD)
    with a R have "R s s2" unfolding preorder_rel_def by blast
    with ms Inl hs show ?thesis by (simp add: pcatch_def)
  qed
qed

lemma frame_pfinally [frame_intros]:
  assumes R: "preorder_rel R" and m: "frame R m" and fin: "frame R fin"
  shows "frame R (pfinally m fin)"
  unfolding frame_def
proof
  fix s
  obtain r s1 where ms: "m s = (r, s1)" by (cases "m s")
  obtain r2 s2 where fs: "fin s1 = (r2, s2)" by (cases "fin s1")
  from m ms have a: "R s s1" by (rule frameD)
  from fin fs have "R s1 s2" by (rule frameD)
  with a R have "R s s2" unfolding preorder_rel_def by blast
  with ms fs show "R s (snd (pfinally m fin s))"
    by (cases r2) (simp_all add: pfinally_def)
qed

lemma frame_if [frame_intros]: "frame R a \<Longrightarrow> frame R b \<Longrightarrow> frame R (if c then a else b)"
  by simp

lemma frame_pwhen [frame_intros]: "preorder_rel R \<Longrightarrow> frame R m \<Longrightarrow> frame R (pwhen c m)"
  by (simp add: pwhen_def frame_pret)

lemma frame_case_option [frame_intros]:
  "frame R a \<Longrightarrow> (\<And>x. frame R (f x)) \<Longrightarrow> frame R (case v of None \<Rightarrow> a | Some x \<Rightarrow> f x)"
  by (cases v) simp_all

lemma frame_case_list [frame_intros]:
  "frame R a \<Longrightarrow> (\<And>x xs. frame R (f x xs)) \<Longrightarrow> frame R (case v of [] \<Rightarrow> a | x # xs \<Rightarrow> f x xs)"
  by (cases v) simp_all

lemma frame_case_sum [frame_intros]:
  "(\<And>x. frame R (f x)) \<Longrightarrow> (\<And>y. frame R (g y)) \<Longrightarrow> frame R (case v of Inl x \<Rightarrow> f x | Inr y \<Rightarrow> g y)"
  by (cases v) simp_all

lemma frame_case_prod [frame_intros]:
  "(\<And>x y. frame R (f x y)) \<Longrightarrow> frame R (case v of (x, y) \<Rightarrow> f x y)"
  by (cases v) simp_all

lemma frame_when_text [frame_intros]:
  "preorder_rel R \<Longrightarrow> (\<And>t. frame R (body t)) \<Longrightarrow> frame R (when_text v body)"
  by (cases v) (simp_all add: when_text_def frame_pret)

lemma frame_weaken: "frame R m \<Longrightarrow> (\<And>s s'. R s s' \<Longrightarrow> R' s s') \<Longrightarrow> frame R' m"
  by (simp add: frame_def)

subsection \<open>Phase and history untouched, the clock only read\<close>

lemma preorder_calm [calm_intros]: "preorder_rel calm"
  by (auto simp: preorder_rel_def calm_def)

lemma calm_poll [calm_intros]: "frame calm (poll_stop_signal env)"
  by (simp add: frame_def calm_def poll_stop_signal_def)

lemma calm_call_logger [calm_intros]: "frame calm (call_logger env)"
  by (simp add: frame_def calm_def call_logger_def)

lemma calm_time_time [calm_intros]: "frame calm (time_time env)"
  by (simp add: frame_def calm_def time_time_def)

lemma calm_sleep_float [calm_intros]: "frame calm (sleep_float f)"
  by (cases f) (simp_all add: frame_def calm_def sleep_float_def praise_def pmodify_def)

lemma calm_sleep [calm_intros]: "frame calm (sleep d)"
  by (simp add: frame_def calm_def sleep_def sleep_float_def praise_def pmodify_def)

lemma calm_create_call [calm_intros]: "frame calm (create_call env cfg)"
  by (simp add: frame_def calm_def create_call_def)

lemma calm_find_call [calm_intros]: "frame calm (find_call env q)"
  by (simp add: frame_def calm_def find_call_def)

lemma calm_find_all_call [calm_intros]: "frame calm (find_all_call env q)"
  by (simp add: frame_def calm_def find_all_call_def)

lemma calm_text_call [calm_intros]: "frame calm (text_call env el)"
  by (simp add: frame_def calm_def text_call_def)

lemma calm_rect_call [calm_intros]: "frame calm (rect_call env el)"
  by (simp add: frame_def calm_def rect_call_def)

lemma calm_ensure_driver [calm_intros]: "frame calm (ensure_driver)"
  by (simp add: frame_def calm_def ensure_driver_def split: option.split)

lemma calm_act_call [calm_intros]: "frame calm (act_call env a)"
  by (simp add: frame_def calm_def act_call_def)

lemma calm_add_log [calm_intros]: "frame calm (pmodify (\<lambda>s. s\<lparr>log_entries := f s\<rparr>))"
  by (simp add: frame_def calm_def pmodify_def)

lemma calm_set_driver [calm_intros]: "frame calm (pmodify (\<lambda>s. s\<lparr>driver := d\<rparr>))"
  by (simp add: frame_def calm_def pmodify_def)

lemma calm_set_wait [calm_intros]: "frame calm (pmodify (\<lambda>s. s\<lparr>wait := w\<rparr>))"
  by (simp add: frame_def calm_def pmodify_def)

lemma calm_clear_driver [calm_intros]: "frame calm (pmodify (\<lambda>s. s\<lparr>driver := d, wait := w\<rparr>))"
  by (simp add: frame_def calm_def pmodify_def)

lemma calm_should_stop [calm_intros]: "frame calm (should_stop env)"
  unfolding should_stop_def by (intro frame_intros calm_intros)

lemma calm_ensure_not_stopped [calm_intros]: "frame calm (ensure_not_stopped env)"
  unfolding ensure_not_stopped_def by (intro frame_intros calm_intros)

lemma calm_runner_log [calm_intros]: "frame calm (runner_log env lvl msg ctx)"
  unfolding runner_log_def by (intro frame_intros calm_intros)

lemma calm_create_driver [calm_intros]: "frame calm (create_driver env cfg)"
  unfolding create_driver_def by (intro frame_intros calm_intros)

lemma calm_apply_driver_settings [calm_intros]: "frame calm (apply_driver_settings env)"
  unfolding apply_driver_settings_def by (intro frame_intros calm_intros)

lemma calm_cleanup_driver [calm_intros]: "frame calm (cleanup_driver env)"
  unfolding cleanup_driver_def by (intro frame_intros calm_intros)

lemma calm_back_presses [calm_intros]: "frame calm (back_presses env n)"
proof (induction n)
  case (0)
  show ?case by (simp add: frame_pret preorder_calm)
next
  case (Suc n)
  then show ?case by simp (intro frame_intros calm_intros)
qed

lemma calm_navigate_to_homepage [calm_intros]: "frame calm (navigate_to_homepage env)"
  unfolding navigate_to_homepage_def by (intro frame_intros calm_intros)

lemma calm_try_selectors [calm_intros]: "frame calm (try_selectors env t sels)"
proof (induction sels)
  case (Nil)
  show ?case by (simp add: frame_pret preorder_calm)
next
  case (Cons x sels)
  then show ?case by simp (intro frame_intros calm_intros)
qed

lemma calm_smart_wait_and_click [calm_intros]: "frame calm (smart_wait_and_click env a b t)"
  unfolding smart_wait_and_click_def by (intro frame_intros calm_intros)

lemma calm_get_visible_cities [calm_intros]: "frame calm (get_visible_cities env c)"
  unfolding get_visible_cities_def by (intro frame_intros calm_intros)

lemma calm_select_city [calm_intros]: "frame calm (select_city env c)"
  unfolding select_city_def by (intro frame_intros calm_intros)

lemma calm_search_event [calm_intros]: "frame calm (search_event env k a b)"
  unfolding search_event_def by (intro frame_intros calm_intros)

lemma calm_tap_purchase_button [calm_intros]: "frame calm (tap_purchase_button env)"
  unfolding tap_purchase_button_def by (intro frame_intros calm_intros)

lemma calm_select_viewers [calm_intros]: "frame calm (select_viewers env xs)"
proof (induction xs)
  case (Nil)
  show ?case by (simp add: frame_pret preorder_calm)
next
  case (Cons x xs)
  then show ?case by simp (intro frame_intros calm_intros)
qed

lemma calm_select_theme_dialog [calm_intros]: "frame calm (select_theme_dialog env)"
  unfolding select_theme_dialog_def by (intro frame_intros calm_intros)

lemma calm_select_date [calm_intros]: "frame calm (select_date env cfg)"
  unfolding select_date_def by (intro frame_intros calm_intros)

lemma calm_first_found [calm_intros]: "frame calm (first_found env c sels)"
proof (induction sels)
  case (Nil)
  show ?case by (simp add: frame_pret preorder_calm)
next
  case (Cons x sels)
  then show ?case by simp (intro frame_intros calm_intros)
qed

lemma calm_select_session [calm_intros]: "frame calm (select_session env cfg)"
  unfolding select_session_def by (intro frame_intros calm_intros)

lemma calm_select_price [calm_intros]: "frame calm (select_price env cfg)"
  unfolding select_price_def by (intro frame_intros calm_intros)

lemma calm_clicks [calm_intros]: "frame calm (clicks env b n)"
proof (induction n)
  case (0)
  show ?case by (simp add: frame_pret preorder_calm)
next
  case (Suc n)
  then show ?case by simp (intro frame_intros calm_intros)
qed

lemma calm_select_quantity [calm_intros]: "frame calm (select_quantity env cfg)"
  unfolding select_quantity_def Let_def by (intro frame_intros calm_intros)

lemma calm_confirm_purchase [calm_intros]: "frame calm (confirm_purchase env)"
  unfolding confirm_purchase_def by (intro frame_intros calm_intros)


section \<open>Statements that never raise, and what a statement can return\<close>

lemma noraiseD: "noraise m \<Longrightarrow> \<exists>x s'. m s = (Inr x, s')"
  by (simp add: noraise_def)

lemma noraise_pret [noraise_intros]: "noraise (pret x)"
  by (simp add: noraise_def pret_def)

lemma noraise_pget [noraise_intros]: "noraise (pget f)"
  by (simp add: noraise_def pget_def)

lemma noraise_pmodify [noraise_intros]: "noraise (pmodify f)"
  by (simp add: noraise_def pmodify_def)

lemma noraise_pbind [noraise_intros]:
  assumes "noraise m" and "\<And>x. noraise (f x)"
  shows "noraise (pbind m f)"
  unfolding noraise_def
proof
  fix s
  from noraiseD [OF assms(1), of s] obtain x s1 where ms: "m s = (Inr x, s1)" by blast
  from noraiseD [OF assms(2), of x s1] obtain y s2 where "f x s1 = (Inr y, s2)" by blast
  with ms show "\<exists>y s'. pbind m f s = (Inr y, s')" by (simp add: pbind_def)
qed

lemma noraise_pthen [noraise_intros]: "noraise m \<Longrightarrow> noraise n \<Longrightarrow> noraise (pthen m n)"
  unfolding pthen_def by (rule noraise_pbind)

lemma noraise_pcatch [noraise_intros]:
  assumes "\<And>e. noraise (h e)"
  shows "noraise (pcatch m h)"
  unfolding noraise_def
proof
  fix s
  obtain r s1 where ms: "m s = (r, s1)" by (cases "m s")
  show "\<exists>x s'. pcatch m h s = (Inr x, s')"
  proof (cases r)
    case (Inr x)
    with ms show ?thesis by (simp add: pcatch_def)
  next
    case (Inl e)
    from noraiseD [OF assms, of e s1] obtain y s2 where "h e s1 = (Inr y, s2)" by blast
    with ms Inl show ?thesis by (simp add: pcatch_def)
  qed
qed

lemma noraise_pfinally [noraise_intros]:
  assumes "noraise m" and "noraise fin"
  shows "noraise (pfinally m fin)"
  unfolding noraise_def
proof
  fix s
  from noraiseD [OF assms(1), of s] obtain x s1 where ms: "m s = (Inr x, s1)" by blast
  from noraiseD [OF assms(2), of s1] obtain y s2 where "fin s1 = (Inr y, s2)" by blast
  with ms show "\<exists>x s'. pfinally m fin s = (Inr x, s')" by (simp add: pfinally_def)
qed

lemma noraise_if [noraise_intros]: "noraise a \<Longrightarrow> noraise b \<Longrightarrow> noraise (if c then a else b)"
  by simp

lemma noraise_pwhen [noraise_intros]: "noraise m \<Longrightarrow> noraise (pwhen c m)"
  by (simp add: pwhen_def noraise_pret)

lemma noraise_case_prod [noraise_intros]:
  "(\<And>x y. noraise (f x y)) \<Longrightarrow> noraise (case v of (x, y) \<Rightarrow> f x y)"
  by (cases v) simp_all

lemma noraise_time_time [noraise_intros]: "noraise (time_time env)"
  by (simp add: noraise_def time_time_def)

lemma noraise_should_stop [noraise_intros]: "noraise (should_stop env)"
  unfolding should_stop_def by (intro noraise_intros)

lemma noraise_runner_log [noraise_intros]: "noraise (runner_log env lvl msg ctx)"
  unfolding runner_log_def by (intro noraise_intros)

lemma noraise_sleep_float [noraise_intros]: "0 \<le> d \<Longrightarrow> noraise (sleep_float (Finite d))"
  by (simp add: sleep_float_def noraise_pmodify)

lemma noraise_cleanup_driver [noraise_intros]: "noraise (cleanup_driver env)"
  unfolding cleanup_driver_def by (intro noraise_intros)

lemma noraise_try_attempt [noraise_intros]: "noraise (try_attempt env cfg n fcode fmsg)"
  unfolding try_attempt_def by (intro noraise_intros)

lemma noraise_between_attempts [noraise_intros]: "noraise (between_attempts env cfg mr n ok)"
  unfolding between_attempts_def by (intro noraise_intros) simp

lemma noraise_attempt_loop [noraise_intros]: "noraise (attempt_loop env cfg mr n fcode fmsg)"
proof (induction k \<equiv> "nat (mr - n)" arbitrary: n fcode fmsg)
  case 0
  then have "\<not> n < mr" by simp
  then show ?case by (subst attempt_loop.simps) (simp add: noraise_pret)
next
  case (Suc k)
  then have "k = nat (mr - (n + 1))" by simp
  then have IH: "\<And>fc fm. noraise (attempt_loop env cfg mr (n + 1) fc fm)"
    by (rule Suc.hyps(1))
  show ?case
    by (subst attempt_loop.simps) (intro noraise_intros IH)
qed

lemma noraise_run_attempts [noraise_intros]: "noraise (run_attempts env cfg mr)"
  unfolding run_attempts_def by (intro noraise_intros)

lemma noraise_run_init [noraise_intros]: "noraise (run_init env)"
  unfolding run_init_def by (intro noraise_intros)

subsection \<open>rets\<close>

lemma retsD: "rets Q m \<Longrightarrow> m s = (Inr x, s') \<Longrightarrow> Q x"
  by (auto simp: rets_def)

lemma rets_pret [rets_intros]: "Q x \<Longrightarrow> rets Q (pret x)"
  by (simp add: rets_def pret_def)

lemma rets_praise [rets_intros]: "rets Q (praise e)"
  by (simp add: rets_def praise_def)

lemma rets_pbind [rets_intros]:
  assumes "\<And>x. rets Q (f x)"
  shows "rets Q (pbind m f)"
  unfolding rets_def
proof (intro allI impI)
  fix s y s'
  assume "pbind m f s = (Inr y, s')"
  then obtain x s1 where "f x s1 = (Inr y, s')"
    by (auto simp: pbind_def split: prod.splits sum.splits)
  with assms show "Q y" by (auto dest: retsD)
qed

lemma rets_pthen [rets_intros]: "rets Q n \<Longrightarrow> rets Q (pthen m n)"
  unfolding pthen_def by (rule rets_pbind)

lemma rets_pcatch [rets_intros]:
  assumes "rets Q m" and "\<And>e. rets Q (h e)"
  shows "rets Q (pcatch m h)"
  unfolding rets_def
proof (intro allI impI)
  fix s y s'
  assume "pcatch m h s = (Inr y, s')"
  then have "m s = (Inr y, s') \<or> (\<exists>e s1. h e s1 = (Inr y, s'))"
    by (auto simp: pcatch_def split: prod.splits sum.splits)
  with assms show "Q y" by (auto dest: retsD)
qed

lemma rets_pfinally [rets_intros]:
  assumes "rets Q m"
  shows "rets Q (pfinally m fin)"
  unfolding rets_def
proof (intro allI impI)
  fix s y s'
  assume "pfinally m fin s = (Inr y, s')"
  then have "\<exists>s1. m s = (Inr y, s1)"
    by (auto simp: pfinally_def split: prod.splits sum.splits)
  with assms show "Q y" by (auto dest: retsD)
qed

lemma rets_if [rets_intros]: "rets Q a \<Longrightarrow> rets Q b \<Longrightarrow> rets Q (if c then a else b)"
  by simp

lemma rets_perform_ticket_flow [rets_intros]: "rets (\<lambda>b. b) (perform_ticket_flow env cfg skip)"
  unfolding perform_ticket_flow_def by (intro rets_intros) simp

lemma rets_execute_once [rets_intros]: "rets (\<lambda>b. b) (execute_once env cfg skip)"
  unfolding execute_once_def by (intro rets_intros)


section \<open>Phases during one attempt\<close>

lemma ball_butlast_last:
  "xs \<noteq> [] \<Longrightarrow> (\<forall>p \<in> set xs. P p) \<longleftrightarrow> (\<forall>p \<in> set (butlast xs). P p) \<and> P (last xs)"
  by (induction xs) auto

lemma in_progress_all:
  "in_progress s \<longleftrightarrow>
     phase_history s \<noteq> [] \<and> current_phase s = last (phase_history s) \<and>
     (\<forall>p \<in> set (phase_history s). p \<noteq> COMPLETED \<and> p \<noteq> STOPPED)"
proof (cases "phase_history s = []")
  case True
  then show ?thesis by (simp add: in_progress_def terminal_last_def)
next
  case False
  from ball_butlast_last [OF False, of "\<lambda>p. p \<noteq> COMPLETED \<and> p \<noteq> STOPPED"]
  show ?thesis unfolding in_progress_def terminal_last_def by metis
qed

lemma in_progress_terminal_last: "in_progress s \<Longrightarrow> terminal_last s"
  by (simp add: in_progress_def)

lemma in_progress_not_completed: "in_progress s \<Longrightarrow> not_completed s"
  by (simp add: in_progress_def not_completed_def)

lemma calm_terminal_last: "calm s s' \<Longrightarrow> terminal_last s' = terminal_last s"
  by (simp add: calm_def terminal_last_def)

lemma calm_in_progress: "calm s s' \<Longrightarrow> in_progress s' = in_progress s"
  by (simp add: calm_def in_progress_def terminal_last_def)

lemma calm_not_completed: "calm s s' \<Longrightarrow> not_completed s' = not_completed s"
  by (simp add: calm_def not_completed_def terminal_last_def)

lemma transition_in_progress:
  "in_progress s \<Longrightarrow> ph \<noteq> COMPLETED \<Longrightarrow> ph \<noteq> STOPPED \<Longrightarrow> in_progress (transition_to ph s)"
  by (auto simp: in_progress_all transition_to_def)

lemma transition_terminal_last: "in_progress s \<Longrightarrow> terminal_last (transition_to ph s)"
proof (cases "ph = current_phase s")
  case True
  assume "in_progress s"
  with True show ?thesis by (simp add: transition_to_def in_progress_def)
next
  case False
  assume "in_progress s"
  with False show ?thesis by (simp add: in_progress_all terminal_last_def transition_to_def)
qed

lemma mark_failure_in_progress: "in_progress s \<Longrightarrow> in_progress (mark_failure s)"
  by (simp add: mark_failure_def transition_in_progress)

lemma mark_stopped_terminal_last: "not_completed s \<Longrightarrow> terminal_last (mark_stopped s)"
proof (cases "current_phase s = STOPPED")
  case True
  assume "not_completed s"
  with True show ?thesis by (simp add: mark_stopped_def not_completed_def)
next
  case False
  assume "not_completed s"
  with False have "in_progress s" by (simp add: not_completed_def in_progress_def)
  with False show ?thesis by (simp add: mark_stopped_def transition_terminal_last)
qed

lemma mark_stopped_phase: "current_phase (mark_stopped s) = STOPPED"
  by (simp add: mark_stopped_def transition_to_def)

lemma mark_failure_phase: "current_phase (mark_failure s) = FAILED"
  by (simp add: mark_failure_def transition_to_def)

lemma staysD: "stays m \<Longrightarrow> in_progress s \<Longrightarrow> m s = (r, s') \<Longrightarrow> in_progress s'"
  by (auto simp: stays_def dest: spec [where x = s])

lemma stays_calm: "frame calm m \<Longrightarrow> stays m"
  unfolding stays_def
proof (intro allI impI)
  fix s assume f: "frame calm m" and p: "in_progress s"
  from f have "calm s (snd (m s))" by (simp add: frame_def)
  with p show "in_progress (snd (m s))" by (simp add: calm_in_progress)
qed

lemma stays_transition [stays_intros]:
  "ph \<noteq> COMPLETED \<Longrightarrow> ph \<noteq> STOPPED \<Longrightarrow> stays (pmodify (transition_to ph))"
  by (simp add: stays_def pmodify_def transition_in_progress)

lemma stays_mark_failure [stays_intros]: "stays (pmodify mark_failure)"
  by (simp add: stays_def pmodify_def mark_failure_in_progress)

lemma stays_pret [stays_intros]: "stays (pret x)"
  by (simp add: stays_def pret_def)

lemma stays_praise [stays_intros]: "stays (praise e)"
  by (simp add: stays_def praise_def)

lemma stays_pbind [stays_intros]:
  assumes m: "stays m" and f: "\<And>x. stays (f x)"
  shows "stays (pbind m f)"
  unfolding stays_def
proof (intro allI impI)
  fix s assume p: "in_progress s"
  obtain r s1 where ms: "m s = (r, s1)" by (cases "m s")
  from m p ms have p1: "in_progress s1" by (rule staysD)
  show "in_progress (snd (pbind m f s))"
  proof (cases r)
    case (Inl e)
    with ms p1 show ?thesis by (simp add: pbind_def)
  next
    case (Inr x)
    obtain r2 s2 where fs: "f x s1 = (r2, s2)" by (cases "f x s1")
    from f p1 fs have "in_progress s2" by (rule staysD)
    with ms Inr fs show ?thesis by (simp add: pbind_def)
  qed
qed

lemma stays_pthen [stays_intros]: "stays m \<Longrightarrow> stays n \<Longrightarrow> stays (pthen m n)"
  unfolding pthen_def by (rule stays_pbind)

lemma stays_pcatch [stays_intros]:
  assumes m: "stays m" and h: "\<And>e. stays (h e)"
  shows "stays (pcatch m h)"
  unfolding stays_def
proof (intro allI impI)
  fix s assume p: "in_progress s"
  obtain r s1 where ms: "m s = (r, s1)" by (cases "m s")
  from m p ms have p1: "in_progress s1" by (rule staysD)
  show "in_progress (snd (pcatch m h s))"
  proof (cases r)
    case (Inr x)
    with ms p1 show ?thesis by (simp add: pcatch_def)
  next
    case (Inl e)
    obtain r2 s2 where hs: "h e s1 = (r2, s2)" by (cases "h e s1")
    from h p1 hs have "in_progress s2" by (rule staysD)
    with ms Inl hs show ?thesis by (simp add: pcatch_def)
  qed
qed

lemma stays_if [stays_intros]: "stays a \<Longrightarrow> stays b \<Longrightarrow> stays (if c then a else b)"
  by simp

lemma stays_pwhen [stays_intros]: "stays m \<Longrightarrow> stays (pwhen c m)"
  by (simp add: pwhen_def stays_pret)

lemma stays_when_text [stays_intros]: "(\<And>t. stays (body t)) \<Longrightarrow> stays (when_text v body)"
  by (cases v) (simp_all add: when_text_def stays_pret)

lemma stays_case_prod [stays_intros]:
  "(\<And>x y. stays (f x y)) \<Longrightarrow> stays (case v of (x, y) \<Rightarrow> f x y)"
  by (cases v) simp_all

lemmas stays_steps [stays_intros] =
  calm_ensure_not_stopped [THEN stays_calm]
  calm_ensure_driver [THEN stays_calm]
  calm_runner_log [THEN stays_calm]
  calm_create_driver [THEN stays_calm]
  calm_set_driver [THEN stays_calm]
  calm_set_wait [THEN stays_calm]
  calm_apply_driver_settings [THEN stays_calm]
  calm_select_city [THEN stays_calm]
  calm_search_event [THEN stays_calm]
  calm_select_theme_dialog [THEN stays_calm]
  calm_tap_purchase_button [THEN stays_calm]
  calm_select_date [THEN stays_calm]
  calm_select_session [THEN stays_calm]
  calm_select_price [THEN stays_calm]
  calm_select_quantity [THEN stays_calm]
  calm_confirm_purchase [THEN stays_calm]

lemma endsD:
  "ends m \<Longrightarrow> in_progress s \<Longrightarrow> m s = (r, s') \<Longrightarrow>
     (case r of Inr b \<Rightarrow> b \<and> terminal_last s' | Inl e \<Rightarrow> in_progress s')"
  by (auto simp: ends_def dest: spec [where x = s])

lemma ends_pthen:
  assumes m: "stays m" and n: "ends n"
  shows "ends (pthen m n)"
  unfolding ends_def
proof (intro allI impI)
  fix s assume p: "in_progress s"
  obtain r s1 where ms: "m s = (r, s1)" by (cases "m s")
  from m p ms have p1: "in_progress s1" by (rule staysD)
  show "case pthen m n s of (Inr b, s') \<Rightarrow> b \<and> terminal_last s' | (Inl e, s') \<Rightarrow> in_progress s'"
  proof (cases r)
    case (Inl e)
    with ms p1 show ?thesis by (simp add: pthen_def pbind_def)
  next
    case (Inr x)
    obtain r2 s2 where ns: "n s1 = (r2, s2)" by (cases "n s1")
    from n p1 ns have "case r2 of Inr b \<Rightarrow> b \<and> terminal_last s2 | Inl e \<Rightarrow> in_progress s2"
      by (rule endsD)
    with ms Inr ns show ?thesis by (simp add: pthen_def pbind_def)
  qed
qed

lemma ends_last: "ends (pthen (pmodify (transition_to COMPLETED)) (pret True))"
  unfolding ends_def
proof (intro allI impI)
  fix s assume "in_progress s"
  then have "terminal_last (transition_to COMPLETED s)" by (rule transition_terminal_last)
  then show "case pthen (pmodify (transition_to COMPLETED)) (pret True) s of
      (Inr b, s') \<Rightarrow> b \<and> terminal_last s' | (Inl e, s') \<Rightarrow> in_progress s'"
    by (simp add: pthen_def pbind_def pmodify_def pret_def)
qed

lemma attempt_okD:
  "attempt_ok m \<Longrightarrow> in_progress s \<Longrightarrow> m s = (r, s') \<Longrightarrow>
     (case r of Inr b \<Rightarrow> b \<and> terminal_last s'
      | Inl e \<Rightarrow> if is_stopped e then not_completed s' else in_progress s')"
proof -
  assume a: "attempt_ok m" and p: "in_progress s" and ms: "m s = (r, s')"
  from a [unfolded attempt_ok_def, rule_format, OF p] ms show ?thesis
    by (cases r) simp_all
qed

lemma attempt_ok_pcatch_flow:
  assumes body: "ends body"
  shows "attempt_ok (pcatch body (\<lambda>exc.
           if is_stopped exc then pthen (pmodify mark_stopped) (praise exc)
           else if is_runner_error exc then pthen (pmodify mark_failure) (praise exc)
           else pthen (pmodify mark_failure)
                  (pbind (pget current_phase) (\<lambda>ph.
                     praise (Exc TicketRunnerError
                               (msg_phase_exception (ascii (phase_value ph)) (exc_str exc)))))))"
    (is "attempt_ok (pcatch body ?h)")
  unfolding attempt_ok_def
proof (intro allI impI)
  fix s assume p: "in_progress s"
  obtain r s1 where bs: "body s = (r, s1)" by (cases "body s")
  from body p bs have post: "case r of Inr b \<Rightarrow> b \<and> terminal_last s1 | Inl e \<Rightarrow> in_progress s1"
    by (rule endsD)
  show "case pcatch body ?h s of
          (Inr b, s') \<Rightarrow> b \<and> terminal_last s'
        | (Inl e, s') \<Rightarrow> if is_stopped e then not_completed s' else in_progress s'"
  proof (cases r)
    case (Inr b)
    with bs post show ?thesis by (simp add: pcatch_def)
  next
    case (Inl e)
    with post have p1: "in_progress s1" by simp
    from mark_stopped_terminal_last [OF in_progress_not_completed [OF p1]]
    have nc: "not_completed (mark_stopped s1)"
      by (simp add: not_completed_def mark_stopped_phase)
    from p1 have pf: "in_progress (mark_failure s1)" by (rule mark_failure_in_progress)
    from bs Inl nc pf show ?thesis
      by (simp add: pcatch_def pthen_def pbind_def pmodify_def praise_def pget_def is_stopped_def)
  qed
qed

lemma attempt_ok_flow: "attempt_ok (perform_ticket_flow env cfg skip)"
  unfolding perform_ticket_flow_def
  apply (rule attempt_ok_pcatch_flow)
  apply (rule ends_last | (rule ends_pthen, (intro stays_intros; simp)))+
  done

lemma attempt_ok_pthen:
  assumes m: "stays m" and n: "attempt_ok n"
  shows "attempt_ok (pthen m n)"
  unfolding attempt_ok_def
proof (intro allI impI)
  fix s assume p: "in_progress s"
  obtain r s1 where ms: "m s = (r, s1)" by (cases "m s")
  from m p ms have p1: "in_progress s1" by (rule staysD)
  show "case pthen m n s of
          (Inr b, s') \<Rightarrow> b \<and> terminal_last s'
        | (Inl e, s') \<Rightarrow> if is_stopped e then not_completed s' else in_progress s'"
  proof (cases r)
    case (Inl e)
    with ms p1 show ?thesis by (simp add: pthen_def pbind_def in_progress_not_completed)
  next
    case (Inr x)
    obtain r2 s2 where ns: "n s1 = (r2, s2)" by (cases "n s1")
    from attempt_okD [OF n p1 ns] ms Inr ns show ?thesis by (simp add: pthen_def pbind_def)
  qed
qed

lemma attempt_ok_pfinally:
  assumes m: "attempt_ok m" and fin: "frame calm fin" and nr: "noraise fin"
  shows "attempt_ok (pfinally m fin)"
  unfolding attempt_ok_def
proof (intro allI impI)
  fix s assume p: "in_progress s"
  obtain r s1 where ms: "m s = (r, s1)" by (cases "m s")
  from noraiseD [OF nr, of s1] obtain u s2 where fs: "fin s1 = (Inr u, s2)" by blast
  from fin fs have c: "calm s1 s2" by (rule frameD)
  from attempt_okD [OF m p ms] c ms fs
  show "case pfinally m fin s of
          (Inr b, s') \<Rightarrow> b \<and> terminal_last s'
        | (Inl e, s') \<Rightarrow> if is_stopped e then not_completed s' else in_progress s'"
    by (cases r) (simp_all add: pfinally_def calm_terminal_last calm_in_progress calm_not_completed)
qed

lemma attempt_ok_execute_once: "attempt_ok (execute_once env cfg skip)"
  unfolding execute_once_def
  apply (rule attempt_ok_pfinally)
    apply (rule attempt_ok_flow | (rule attempt_ok_pthen, (intro stays_intros; simp)))+
   apply (intro frame_intros calm_intros)
  apply (intro noraise_intros)
  done


section \<open>Facts about text\<close>

lemma starts_with_iff: "starts_with xs ys \<longleftrightarrow> (\<exists>bs. ys = xs @ bs)"
proof (induction xs arbitrary: ys)
  case Nil
  show ?case by simp
next
  case (Cons x xs)
  show ?case by (cases ys) (auto simp: Cons.IH)
qed

lemma py_in_iff: "py_in xs ys \<longleftrightarrow> (\<exists>as bs. ys = as @ xs @ bs)"
proof (induction ys)
  case Nil
  show ?case by auto
next
  case (Cons y ys)
  show ?case
  proof
    assume "py_in xs (y # ys)"
    then consider "starts_with xs (y # ys)" | "py_in xs ys" by auto
    then show "\<exists>as bs. y # ys = as @ xs @ bs"
    proof cases
      case 1
      then obtain bs where "y # ys = xs @ bs" by (auto simp: starts_with_iff)
      then have "y # ys = [] @ xs @ bs" by simp
      then show ?thesis by blast
    next
      case 2
      then obtain as bs where "ys = as @ xs @ bs" by (auto simp: Cons.IH)
      then have "y # ys = (y # as) @ xs @ bs" by simp
      then show ?thesis by blast
    qed
  next
    assume "\<exists>as bs. y # ys = as @ xs @ bs"
    then obtain as bs where eq: "y # ys = as @ xs @ bs" by blast
    show "py_in xs (y # ys)"
    proof (cases as)
      case Nil
      with eq have "starts_with xs (y # ys)" by (auto simp: starts_with_iff)
      then show ?thesis by simp
    next
      case (Cons a as')
      with eq have "ys = as' @ xs @ bs" by simp
      then have "py_in xs ys" unfolding Cons.IH by blast
      then show ?thesis by simp
    qed
  qed
qed

lemma py_in_rev: "py_in (rev xs) (rev ys) \<longleftrightarrow> py_in xs ys"
proof -
  have "\<And>xs ys. py_in xs ys \<Longrightarrow> py_in (rev xs) (rev ys)"
  proof -
    fix xs ys :: pystr
    assume "py_in xs ys"
    then obtain as bs where "ys = as @ xs @ bs" by (auto simp: py_in_iff)
    then have "rev ys = rev bs @ rev xs @ rev as" by simp
    then show "py_in (rev xs) (rev ys)" unfolding py_in_iff by blast
  qed
  from this [of xs ys] this [of "rev xs" "rev ys"] show ?thesis by auto
qed

lemma py_in_dropWhile:
  assumes "py_in xs ys" and "xs \<noteq> []" and "\<not> P (hd xs)"
  shows "py_in xs (dropWhile P ys)"
  using assms(1)
proof (induction ys)
  case Nil
  then show ?case by simp
next
  case (Cons y ys)
  show ?case
  proof (cases "P y")
    case False
    with Cons.prems show ?thesis by simp
  next
    case True
    have "\<not> starts_with xs (y # ys)"
    proof
      assume "starts_with xs (y # ys)"
      then obtain bs where "y # ys = xs @ bs" by (auto simp: starts_with_iff)
      with assms(2) have "hd xs = y" by (cases xs) auto
      with True assms(3) show False by simp
    qed
    with Cons.prems have "py_in xs ys" by simp
    then have "py_in xs (dropWhile P ys)" by (rule Cons.IH)
    with True show ?thesis by simp
  qed
qed

lemma py_in_of_dropWhile: "py_in xs (dropWhile P ys) \<Longrightarrow> py_in xs ys"
proof -
  assume "py_in xs (dropWhile P ys)"
  then obtain as bs where "dropWhile P ys = as @ xs @ bs" by (auto simp: py_in_iff)
  then have "ys = (takeWhile P ys @ as) @ xs @ bs"
    by (metis append.assoc takeWhile_dropWhile_id)
  then show ?thesis unfolding py_in_iff by blast
qed

text \<open>Stripping neither hides nor creates an occurrence of a text that starts and ends
  with a non-space character.\<close>

lemma py_in_strip:
  assumes "xs \<noteq> []" and "\<not> is_space (hd xs)" and "\<not> is_space (last xs)"
  shows "py_in xs (py_strip t) \<longleftrightarrow> py_in xs t"
proof
  have rev_strip: "rev (py_strip t) = dropWhile is_space (rev (dropWhile is_space t))"
    by (simp add: py_strip_def)
  {
    assume "py_in xs (py_strip t)"
    then have "py_in (rev xs) (rev (py_strip t))" by (simp only: py_in_rev)
    then have "py_in (rev xs) (dropWhile is_space (rev (dropWhile is_space t)))"
      by (simp only: rev_strip)
    then have "py_in (rev xs) (rev (dropWhile is_space t))" by (rule py_in_of_dropWhile)
    then have "py_in xs (dropWhile is_space t)" by (simp only: py_in_rev)
    then show "py_in xs t" by (rule py_in_of_dropWhile)
  }
  {
    assume "py_in xs t"
    then have "py_in xs (dropWhile is_space t)" using assms(1,2) by (rule py_in_dropWhile)
    then have "py_in (rev xs) (rev (dropWhile is_space t))" by (simp only: py_in_rev)
    moreover from assms have "rev xs \<noteq> []" and "\<not> is_space (hd (rev xs))"
      by (simp_all add: hd_rev)
    ultimately have "py_in (rev xs) (dropWhile is_space (rev (dropWhile is_space t)))"
      by (rule py_in_dropWhile)
    then have "py_in (rev xs) (rev (py_strip t))" by (simp only: rev_strip)
    then show "py_in xs (py_strip t)" by (simp only: py_in_rev)
  }
qed

lemma conn_text_edges:
  "conn_text \<noteq> []" "\<not> is_space (hd conn_text)" "\<not> is_space (last conn_text)"
  by (simp_all add: conn_text_def ascii_def is_space_def)

lemma conn_text_strip: "py_in conn_text (py_strip t) \<longleftrightarrow> py_in conn_text t"
  by (rule py_in_strip) (rule conn_text_edges)+

lemma conn_text_not_in_class_name: "\<not> py_in conn_text (class_name TicketRunnerError)"
  by (simp add: conn_text_def class_name_def ascii_def)

lemma conn_text_not_in_empty: "\<not> py_in conn_text []"
  by (simp add: conn_text_def)

lemma diagnose_failure_code:
  "fst (diagnose_failure e) =
     (if exc_cls e = TicketRunnerStopped then USER_STOP
      else if exc_cls e = TicketRunnerError
           then (if py_in conn_text (exc_str e) then APPIUM_CONNECTION else FLOW_FAILURE)
      else UNEXPECTED)"
proof (cases "py_strip (exc_str e) = []")
  case True
  then have "\<not> py_in conn_text (exc_str e)"
    using conn_text_strip [of "exc_str e"] conn_text_not_in_empty by simp
  with True show ?thesis
    by (auto simp: diagnose_failure_def Let_def or_text_def is_stopped_def is_runner_error_def
        conn_text_not_in_class_name)
next
  case False
  then show ?thesis
    by (auto simp: diagnose_failure_def Let_def or_text_def is_stopped_def is_runner_error_def
        conn_text_strip)
qed

lemma conn_text_in_connect_failed: "py_in conn_text (msg_connect_failed m)"
  by (simp add: msg_connect_failed_def conn_text_def ascii_def)


section \<open>The claims\<close>

text \<open>
  Claim C4. The failure code that \<^verbatim>\<open>_diagnose_failure\<close> gives depends on the class of the
  exception and on its text only: \<^verbatim>\<open>USER_STOP\<close> for a \<^verbatim>\<open>TicketRunnerStopped\<close>; for any
  other \<^verbatim>\<open>TicketRunnerError\<close>, \<^verbatim>\<open>APPIUM_CONNECTION\<close> when the text contains the
  connection-failure text and \<^verbatim>\<open>FLOW_FAILURE\<close> when it does not; \<^verbatim>\<open>UNEXPECTED\<close> for
  every other exception. The function takes neither the phase nor the attempt.
\<close>

theorem failure_classification:
  "fst (diagnose_failure e) =
     (if exc_cls e = TicketRunnerStopped then USER_STOP
      else if exc_cls e = TicketRunnerError
           then (if py_in conn_text (exc_str e) then APPIUM_CONNECTION else FLOW_FAILURE)
      else UNEXPECTED)"
  by (rule diagnose_failure_code)

end
